theory Spec2Isabelle
  imports Complex_Main
begin

section \<open>Tokens and the scanner interface\<close>

text \<open>
  The token kinds that \<^verbatim>\<open>compiler.c\<close> names.  The enumeration itself is declared in the
  scanner's header; the compiler only ever compares kinds for equality and uses them as
  the key of the rule table.
\<close>

datatype TokenType =
    TOKEN_LEFT_PAREN | TOKEN_RIGHT_PAREN | TOKEN_LEFT_BRACE | TOKEN_RIGHT_BRACE
  | TOKEN_COMMA | TOKEN_DOT | TOKEN_MINUS | TOKEN_PLUS | TOKEN_SEMICOLON | TOKEN_SLASH
  | TOKEN_STAR | TOKEN_NOT | TOKEN_BANG_EQUAL | TOKEN_EQUAL | TOKEN_EQUAL_EQUAL
  | TOKEN_GREATER | TOKEN_GREATER_EQUAL | TOKEN_LESS | TOKEN_LESS_EQUAL
  | TOKEN_IDENTIFIER | TOKEN_STRING | TOKEN_NUMBER | TOKEN_AND | TOKEN_CLASS | TOKEN_ELSE
  | TOKEN_FALSE | TOKEN_FOR | TOKEN_DEF | TOKEN_IF | TOKEN_NIL | TOKEN_OR | TOKEN_RETURN
  | TOKEN_SUPER | TOKEN_THIS | TOKEN_TRUE | TOKEN_VAR | TOKEN_WHILE | TOKEN_ERROR
  | TOKEN_EOF | TOKEN_BREAK | TOKEN_CONTINUE | TOKEN_IMPORT | TOKEN_FROM | TOKEN_PERCENT
  | TOKEN_STAR_STAR | TOKEN_DOT_DOT_DOT | TOKEN_PLUS_EQUALS | TOKEN_MINUS_EQUALS
  | TOKEN_MULTIPLY_EQUALS | TOKEN_DIVIDE_EQUALS | TOKEN_AMPERSAND_EQUALS
  | TOKEN_CARET_EQUALS | TOKEN_PIPE_EQUALS | TOKEN_AMPERSAND | TOKEN_CARET | TOKEN_PIPE
  | TOKEN_AS

text \<open>
  A token is a kind and a lexeme (the C fields \<^verbatim>\<open>start\<close> and \<^verbatim>\<open>length\<close>; the
  length of the token is the length of the lexeme).  Source line numbers only feed the
  diagnostics and the line table of the chunk and are left out.
\<close>

record Token =
  ttype :: TokenType
  lexeme :: string

text \<open>
  Modelled from the spec: the scanner (\<^verbatim>\<open>initScanner\<close>, \<^verbatim>\<open>scanToken\<close>,
  \<^verbatim>\<open>backTrack\<close>; its source file is not part of the sources).  The spec gives its
  interface: \<^verbatim>\<open>next()\<close> yields the next token, \<^verbatim>\<open>backtrack()\<close> rewinds exactly one
  byte.  The source text is represented by what the scanner finds in it: the tokens in
  order, each with the byte offsets where it starts and where scanning resumes after it.
  The scanner state is the byte offset \<open>cur\<close>.  Scanning from an offset yields the first
  token that starts at or after it (blanks are skipped), and the end-of-file token when
  there is none.  Every token other than end-of-file consumes at least one byte.
\<close>

record Scanner =
  items :: "(nat \<times> nat \<times> Token) list"
  cur :: nat

definition eofToken :: Token where
  "eofToken = \<lparr>ttype = TOKEN_EOF, lexeme = []\<rparr>"

definition pending :: "Scanner \<Rightarrow> (nat \<times> nat \<times> Token) list" where
  "pending sc = filter (\<lambda>it. cur sc \<le> fst it) (items sc)"

definition scanToken :: "Scanner \<Rightarrow> Token \<times> Scanner" where
  "scanToken sc =
     (case pending sc of
        [] \<Rightarrow> (eofToken, sc)
      | it # _ \<Rightarrow> (snd (snd it), sc\<lparr>cur := max (fst (snd it)) (Suc (fst it))\<rparr>))"

definition backTrack :: "Scanner \<Rightarrow> Scanner" where
  "backTrack sc = sc\<lparr>cur := cur sc - 1\<rparr>"

text \<open>
  A source text written as a sequence of lexemes, each with the number of blanks in
  front of it; \<open>layout\<close> computes the byte offsets.
\<close>

fun layout :: "nat \<Rightarrow> (nat \<times> TokenType \<times> string) list \<Rightarrow> (nat \<times> nat \<times> Token) list" where
  "layout p [] = []"
| "layout p ((g, ty, lx) # r) =
     (p + g, p + g + length lx, \<lparr>ttype = ty, lexeme = lx\<rparr>) # layout (p + g + length lx) r"

definition initScanner :: "(nat \<times> TokenType \<times> string) list \<Rightarrow> Scanner" where
  "initScanner src = \<lparr>items = layout 0 src, cur = 0\<rparr>"

section \<open>Bytecode, values and function objects\<close>

text \<open>
  The opcodes that the compiler emits or that \<^verbatim>\<open>getArgCount\<close> lists.  Their numeric
  values are fixed by an enumeration in a header that is not part of the sources, so the
  numbering is a parameter \<open>enc\<close> of every definition that reads a byte of the chunk back.
\<close>

datatype OpCode =
    OP_CONSTANT | OP_NIL | OP_TRUE | OP_FALSE | OP_POP | OP_POP_REPL
  | OP_GET_LOCAL | OP_SET_LOCAL | OP_GET_GLOBAL | OP_GET_MODULE | OP_DEFINE_MODULE
  | OP_SET_MODULE | OP_GET_UPVALUE | OP_SET_UPVALUE | OP_GET_PROPERTY
  | OP_GET_PROPERTY_NO_POP | OP_SET_PROPERTY | OP_SET_CLASS_VAR | OP_GET_SUPER
  | OP_EQUAL | OP_GREATER | OP_LESS | OP_ADD | OP_SUBTRACT | OP_MULTIPLY | OP_DIVIDE
  | OP_POW | OP_MOD | OP_NOT | OP_NEGATE | OP_BITWISE_AND | OP_BITWISE_XOR
  | OP_BITWISE_OR | OP_JUMP | OP_JUMP_IF_FALSE | OP_LOOP | OP_BREAK | OP_CALL
  | OP_INVOKE | OP_INVOKE_INTERNAL | OP_SUPER | OP_CLOSURE | OP_CLOSE_UPVALUE
  | OP_RETURN | OP_EMPTY | OP_CLASS | OP_SUBCLASS | OP_END_CLASS | OP_METHOD
  | OP_DEFINE_OPTIONAL | OP_IMPORT | OP_IMPORT_VARIABLE | OP_IMPORT_END | OP_IMPORT_FROM

text \<open>
  A byte of the chunk.  The C array holds plain \<^verbatim>\<open>uint8_t\<close>; the model remembers
  whether a byte was written as an opcode or as an operand, and every read goes through
  the numbering: \<open>byte_val\<close> is the number stored, \<open>is_op\<close> is the C comparison
  \<^verbatim>\<open>code[i] == OP_X\<close>.  Two opcodes compare equal exactly when they are the same
  enumerator (enumerators have distinct values); an operand byte compares equal to an
  opcode when its number is the opcode's number.
\<close>

datatype byte = Opc OpCode | Raw nat

type_synonym encoding = "OpCode \<Rightarrow> nat"

definition byte_val :: "encoding \<Rightarrow> byte \<Rightarrow> nat" where
  "byte_val enc b = (case b of Opc opc \<Rightarrow> enc opc | Raw n \<Rightarrow> n)"

definition is_op :: "encoding \<Rightarrow> byte \<Rightarrow> OpCode \<Rightarrow> bool" where
  "is_op enc b opc = (case b of Opc opc' \<Rightarrow> opc' = opc | Raw n \<Rightarrow> n = enc opc)"

text \<open>The cast \<^verbatim>\<open>(uint8_t)\<close> of an operand.\<close>

definition u8 :: "int \<Rightarrow> byte" where
  "u8 n = Raw (nat (n mod 256))"

text \<open>
  Values of the constant pool.  Numbers are IEEE doubles in the program and reals here:
  the model is exact as long as the double arithmetic is (small integers); rounding is
  not modelled and a division by zero stops the model (see \<open>foldBinary\<close>).  A function
  constant is the finished function object: it is added to the enclosing pool by
  \<^verbatim>\<open>endCompiler\<close>, after which the compiler does not change it any more.
\<close>

datatype Value =
    NIL_VAL
  | BOOL_VAL bool
  | NUMBER_VAL real
  | OBJ_STRING string
  | OBJ_FUNCTION (fn_name: "string option") (fn_arity: nat) (fn_arityOptional: nat)
      (fn_isVariadic: bool) (fn_upvalueCount: nat) (fn_propertyCount: nat)
      (fn_code: "byte list") (fn_constants: "Value list")

text \<open>
  The chunk: \<open>count\<close> is the length of \<open>code\<close>, \<^verbatim>\<open>constants.count\<close> the length of
  \<open>constants\<close>.
\<close>

record Chunk =
  code :: "byte list"
  constants :: "Value list"

record ObjFunction =
  arity :: nat
  arityOptional :: nat
  isVariadic :: bool
  upvalueCount :: nat
  propertyCount :: nat
  fname :: "string option"
  chunk :: Chunk

definition OBJ_VAL :: "ObjFunction \<Rightarrow> Value" where
  "OBJ_VAL f = OBJ_FUNCTION (fname f) (arity f) (arityOptional f) (isVariadic f)
     (upvalueCount f) (propertyCount f) (code (chunk f)) (constants (chunk f))"

datatype FunctionType =
    TYPE_FUNCTION | TYPE_ARROW_FUNCTION | TYPE_INITIALIZER | TYPE_METHOD | TYPE_STATIC
  | TYPE_ABSTRACT | TYPE_TOP_LEVEL

definition newFunction :: ObjFunction where
  "newFunction = \<lparr>arity = 0, arityOptional = 0, isVariadic = False, upvalueCount = 0,
     propertyCount = 0, fname = None, chunk = \<lparr>code = [], constants = []\<rparr>\<rparr>"

section \<open>Compiler state\<close>

record Local =
  l_name :: Token
  l_depth :: int
  l_isUpvalue :: bool
  l_constant :: bool

record Upvalue =
  u_index :: nat
  u_isLocal :: bool
  u_constant :: bool

record Loop =
  l_start :: int
  l_body :: int
  l_end :: int
  l_scopeDepth :: int

record ClassCompiler =
  c_name :: Token
  c_hasSuperclass :: bool
  c_enclosing :: "nat option"
  c_staticMethod :: bool
  c_abstractClass :: bool

text \<open>
  One \<^verbatim>\<open>Compiler\<close> per function being compiled.  \<open>locals\<close> holds the first
  \<^verbatim>\<open>localCount\<close> entries of the C array; \<open>upvalues\<close> is the upvalue array, of which
  the first \<^verbatim>\<open>function->upvalueCount\<close> entries are in use; \<open>loop\<close> is the chain of loop
  records, innermost first (the empty list is the null pointer); \<open>klass\<close> is a pointer
  into the store of class compilers.
\<close>

record Compiler =
  func :: ObjFunction
  ctype :: FunctionType
  locals :: "Local list"
  upvalues :: "nat \<Rightarrow> Upvalue"
  scopeDepth :: int
  loop :: "Loop list"
  klass :: "nat option"
  stringConstants :: "(string \<times> nat) list"

text \<open>
  The parser.  \<open>errors\<close> is the list of diagnostics that \<^verbatim>\<open>errorAt\<close> has printed, in
  order.
\<close>

record Parser =
  current :: Token
  previous :: Token
  scanner :: Scanner
  hadError :: bool
  panicMode :: bool
  errors :: "string list"

text \<open>
  What the compiler uses of the virtual machine: the REPL flag, the names in the
  \<^verbatim>\<open>globals\<close> table and the names in the \<^verbatim>\<open>constants\<close> table.
\<close>

record DictuVM =
  repl :: bool
  globals :: "string list"
  vm_constants :: "string list"

text \<open>
  The whole state: the parser, the machine, the chain of open compilers with the
  innermost first (\<^verbatim>\<open>compiler->enclosing\<close> is the next element) and the store of class
  compilers.  A function of the C code that takes \<^verbatim>\<open>Compiler *compiler\<close> works on
  the head of the chain unless it is given a position in it.
\<close>

record state =
  parser :: Parser
  vm :: DictuVM
  compilers :: "Compiler list"
  classes :: "ClassCompiler list"

text \<open>
  Outcomes.  \<open>Stuck\<close> is a point where the C program has no defined behaviour (or, for
  \<open>NonFiniteNumber\<close>, leaves the model of numbers); \<open>OutOfFuel\<close> is the bound on recursion
  depth and loop iterations running out.
\<close>

datatype fault =
    NullLoop | NullClass | NullRule | OutOfBounds | NotAFunction | NotAString | NotANumber
  | Uninitialised | NonFiniteNumber

datatype 'a outcome = Done 'a | Stuck fault | OutOfFuel

definition andThen :: "'a outcome \<Rightarrow> ('a \<Rightarrow> 'b outcome) \<Rightarrow> 'b outcome" where
  "andThen m f = (case m of Done x \<Rightarrow> f x | Stuck e \<Rightarrow> Stuck e | OutOfFuel \<Rightarrow> OutOfFuel)"

definition cc :: "state \<Rightarrow> Compiler" where
  "cc s = hd (compilers s)"

text \<open>
  A write through a compiler pointer: \<open>upd_compiler d f\<close> applies \<open>f\<close> to the compiler at
  position \<open>d\<close> of the chain.
\<close>

fun map_at :: "nat \<Rightarrow> ('a \<Rightarrow> 'a) \<Rightarrow> 'a list \<Rightarrow> 'a list" where
  "map_at d f [] = []"
| "map_at 0 f (x # xs) = f x # xs"
| "map_at (Suc d) f (x # xs) = x # map_at d f xs"

definition upd_compiler :: "nat \<Rightarrow> (Compiler \<Rightarrow> Compiler) \<Rightarrow> state \<Rightarrow> state" where
  "upd_compiler d f s = compilers_update (map_at d f) s"

definition upd_chunk :: "nat \<Rightarrow> (Chunk \<Rightarrow> Chunk) \<Rightarrow> state \<Rightarrow> state" where
  "upd_chunk d f s = upd_compiler d (func_update (chunk_update f)) s"

definition currentChunk :: "state \<Rightarrow> Chunk" where
  "currentChunk s = chunk (func (cc s))"

definition count :: "state \<Rightarrow> int" where
  "count s = int (length (code (currentChunk s)))"

section \<open>Errors and token handling\<close>

definition errorAt :: "Parser \<Rightarrow> Token \<Rightarrow> string \<Rightarrow> Parser" where
  "errorAt p token message =
     (if panicMode p then p
      else p\<lparr>panicMode := True, errors := errors p @ [message], hadError := True\<rparr>)"

definition error :: "string \<Rightarrow> state \<Rightarrow> state" where
  "error message s = parser_update (\<lambda>p. errorAt p (previous p) message) s"

definition errorAtCurrent :: "string \<Rightarrow> state \<Rightarrow> state" where
  "errorAtCurrent message s = parser_update (\<lambda>p. errorAt p (current p) message) s"

text \<open>
  The loop of \<^verbatim>\<open>advance\<close>: scan until a token that is not an error token, reporting
  each error token with its lexeme as the message.
\<close>

function scanLoop :: "Parser \<Rightarrow> Parser" where
  "scanLoop p =
     (if ttype (fst (scanToken (scanner p))) \<noteq> TOKEN_ERROR
      then p\<lparr>current := fst (scanToken (scanner p)), scanner := snd (scanToken (scanner p))\<rparr>
      else scanLoop
        (errorAt (p\<lparr>current := fst (scanToken (scanner p)), scanner := snd (scanToken (scanner p))\<rparr>)
           (fst (scanToken (scanner p))) (lexeme (fst (scanToken (scanner p))))))"
  by pat_completeness auto

termination scanLoop
proof (relation "measure (\<lambda>p. length (pending (scanner p)))")
  show "wf (measure (\<lambda>p. length (pending (scanner p))))"
    by simp
next
  fix p :: Parser
  define sc where "sc = scanner p"
  assume "\<not> ttype (fst (scanToken (scanner p))) \<noteq> TOKEN_ERROR"
  then have err: "ttype (fst (scanToken sc)) = TOKEN_ERROR"
    by (simp add: sc_def)
  obtain it r where pend: "pending sc = it # r"
    using err by (cases "pending sc") (auto simp: scanToken_def eofToken_def)
  define sc' where "sc' = sc\<lparr>cur := max (fst (snd it)) (Suc (fst it))\<rparr>"
  have s: "snd (scanToken sc) = sc'"
    using pend by (simp add: scanToken_def sc'_def)
  have it_in: "it \<in> set (pending sc)"
    using pend by simp
  then have le: "cur sc \<le> fst it"
    by (simp add: pending_def)
  have "pending sc' = filter (\<lambda>i. cur sc' \<le> fst i) (pending sc)"
    using le by (auto simp: pending_def sc'_def intro!: filter_cong)
  moreover have "\<not> cur sc' \<le> fst it"
    by (simp add: sc'_def)
  ultimately have "length (pending (snd (scanToken sc))) < length (pending sc)"
    using length_filter_less [OF it_in] s by simp
  then show "(errorAt
           (p\<lparr>current := fst (scanToken (scanner p)), scanner := snd (scanToken (scanner p))\<rparr>)
           (fst (scanToken (scanner p))) (lexeme (fst (scanToken (scanner p)))), p)
         \<in> measure (\<lambda>p. length (pending (scanner p)))"
    by (simp add: errorAt_def sc_def)
qed

definition advance :: "state \<Rightarrow> state" where
  "advance s = parser_update (\<lambda>p. scanLoop (p\<lparr>previous := current p\<rparr>)) s"

definition check :: "state \<Rightarrow> TokenType \<Rightarrow> bool" where
  "check s ty = (ttype (current (parser s)) = ty)"

definition consume :: "TokenType \<Rightarrow> string \<Rightarrow> state \<Rightarrow> state" where
  "consume ty message s = (if check s ty then advance s else errorAtCurrent message s)"

definition match :: "TokenType \<Rightarrow> state \<Rightarrow> bool \<times> state" where
  "match ty s = (if \<not> check s ty then (False, s) else (True, advance s))"

section \<open>Emitting bytes\<close>

text \<open>
  Modelled from the spec: \<^verbatim>\<open>writeChunk\<close> and \<^verbatim>\<open>addConstant\<close> of the chunk module
  (not part of the sources).  \<open>write\<close> appends one byte, \<open>addConstant\<close> appends the value
  to the pool without looking for duplicates and returns its index.  The position \<open>d\<close>
  selects the compiler in the chain (0 is \<^verbatim>\<open>compiler\<close>, 1 is \<^verbatim>\<open>compiler->enclosing\<close>).
\<close>

definition emitByte_at :: "nat \<Rightarrow> byte \<Rightarrow> state \<Rightarrow> state" where
  "emitByte_at d b s = upd_chunk d (code_update (\<lambda>cd. cd @ [b])) s"

definition emitByte :: "byte \<Rightarrow> state \<Rightarrow> state" where
  "emitByte b s = emitByte_at 0 b s"

definition emitBytes :: "byte \<Rightarrow> byte \<Rightarrow> state \<Rightarrow> state" where
  "emitBytes byte1 byte2 s = emitByte byte2 (emitByte byte1 s)"

definition emitLoop :: "int \<Rightarrow> state \<Rightarrow> state" where
  "emitLoop loopStart s =
     (let s1 = emitByte (Opc OP_LOOP) s;
          offset = count s1 - loopStart + 2;
          s2 = (if offset > 65535 then error ''Loop body too large.'' s1 else s1)
      in emitByte (u8 offset) (emitByte (u8 (offset div 256)) s2))"

definition emitJump :: "OpCode \<Rightarrow> state \<Rightarrow> int \<times> state" where
  "emitJump instruction s =
     (let s1 = emitByte (Raw 255) (emitByte (Raw 255) (emitByte (Opc instruction) s))
      in (count s1 - 2, s1))"

definition emitReturn :: "state \<Rightarrow> state" where
  "emitReturn s =
     emitByte (Opc OP_RETURN)
       (if ctype (cc s) = TYPE_INITIALIZER then emitBytes (Opc OP_GET_LOCAL) (Raw 0) s
        else emitByte (Opc OP_NIL) s)"

definition makeConstant_at :: "nat \<Rightarrow> Value \<Rightarrow> state \<Rightarrow> nat \<times> state" where
  "makeConstant_at d v s =
     (let constant = length (constants (chunk (func (compilers s ! d))));
          s1 = upd_chunk d (constants_update (\<lambda>vs. vs @ [v])) s
      in if constant > 255 then (0, error ''Too many constants in one chunk.'' s1)
         else (constant, s1))"

definition makeConstant :: "Value \<Rightarrow> state \<Rightarrow> nat \<times> state" where
  "makeConstant v s = makeConstant_at 0 v s"

definition emitConstant :: "Value \<Rightarrow> state \<Rightarrow> state" where
  "emitConstant v s = (case makeConstant v s of (k, s1) \<Rightarrow> emitBytes (Opc OP_CONSTANT) (u8 (int k)) s1)"

text \<open>
  \<^verbatim>\<open>patchJump\<close>.  Every offset that comes from \<open>emitJump\<close> lies inside the chunk.  A
  write at or past \<open>count\<close> would not change the first \<open>count\<close> bytes, which is what the
  list update does; \<open>endLoop\<close>, the one caller that can ask for it, checks before.
\<close>

definition patchJump :: "int \<Rightarrow> state \<Rightarrow> state" where
  "patchJump offset s =
     (let jump = count s - offset - 2;
          s1 = (if jump > 65535 then error ''Too much code to jump over.'' s else s)
      in upd_chunk 0
           (code_update (\<lambda>cd. cd[nat offset := u8 (jump div 256), nat offset + 1 := u8 jump])) s1)"

text \<open>
  \<^verbatim>\<open>initCompiler\<close> pushes a compiler whose parent is the head of the chain (none for
  the top level).  The token of slot 0 has no kind in the C code; it is never read.
\<close>

definition initCompiler :: "FunctionType \<Rightarrow> state \<Rightarrow> state" where
  "initCompiler type s =
     (let parentClass = (case compilers s of [] \<Rightarrow> None | c # _ \<Rightarrow> klass c);
          nm = (case type of
                  TYPE_TOP_LEVEL \<Rightarrow> None
                | TYPE_ABSTRACT \<Rightarrow> None
                | TYPE_ARROW_FUNCTION \<Rightarrow> Some ''<anonymous>''
                | _ \<Rightarrow> Some (lexeme (previous (parser s))));
          slot0 = \<lparr>l_name = \<lparr>ttype = TOKEN_IDENTIFIER,
                     lexeme = (if type = TYPE_METHOD \<or> type = TYPE_INITIALIZER then ''this'' else [])\<rparr>,
                   l_depth = 0, l_isUpvalue = False, l_constant = False\<rparr>
      in s\<lparr>compilers :=
             \<lparr>func = newFunction\<lparr>fname := nm\<rparr>, ctype = type, locals = [slot0],
              upvalues = (\<lambda>i. \<lparr>u_index = 0, u_isLocal = False, u_constant = False\<rparr>),
              scopeDepth = 0, loop = [], klass = parentClass, stringConstants = []\<rparr>
             # compilers s\<rparr>)"

text \<open>
  \<^verbatim>\<open>endCompiler\<close> emits the return, and for a nested function the closure instruction
  with one pair of bytes per upvalue into the enclosing chunk; then the compiler is
  popped.  The argument \<^verbatim>\<open>makeConstant(...)\<close> is evaluated before the bytes are written.
\<close>

definition endCompiler :: "state \<Rightarrow> ObjFunction \<times> state" where
  "endCompiler s =
     (let s1 = emitReturn s; c = cc s1; f = func c
      in if length (compilers s1) > 1
         then (case makeConstant_at 1 (OBJ_VAL f) s1 of (k, s2) \<Rightarrow>
                 let s3 = emitByte_at 1 (u8 (int k)) (emitByte_at 1 (Opc OP_CLOSURE) s2);
                     s4 = fold (\<lambda>u st. emitByte_at 1 (u8 (int (u_index u)))
                                 (emitByte_at 1 (Raw (if u_isLocal u then 1 else 0)) st))
                            (map (upvalues c) [0..<upvalueCount f]) s3
                 in (f, s4\<lparr>compilers := tl (compilers s4)\<rparr>))
         else (f, s1\<lparr>compilers := tl (compilers s1)\<rparr>))"

definition beginScope :: "state \<Rightarrow> state" where
  "beginScope s = upd_compiler 0 (\<lambda>c. c\<lparr>scopeDepth := scopeDepth c + 1\<rparr>) s"

text \<open>
  The loop of \<^verbatim>\<open>endScope\<close> removes one local per iteration, so \<^verbatim>\<open>localCount\<close>
  iterations are all it can make.
\<close>

primrec endScope_loop :: "nat \<Rightarrow> state \<Rightarrow> state" where
  "endScope_loop 0 s = s"
| "endScope_loop (Suc k) s =
     (if locals (cc s) \<noteq> [] \<and> l_depth (last (locals (cc s))) > scopeDepth (cc s)
      then endScope_loop k
             (upd_compiler 0 (\<lambda>c. c\<lparr>locals := butlast (locals c)\<rparr>)
                (emitByte (Opc (if l_isUpvalue (last (locals (cc s))) then OP_CLOSE_UPVALUE else OP_POP)) s))
      else s)"

definition endScope :: "state \<Rightarrow> state" where
  "endScope s =
     (let s1 = upd_compiler 0 (\<lambda>c. c\<lparr>scopeDepth := scopeDepth c - 1\<rparr>) s
      in endScope_loop (length (locals (cc s1))) s1)"

section \<open>Identifiers, locals and upvalues\<close>

definition identifierConstant :: "Token \<Rightarrow> state \<Rightarrow> nat \<times> state" where
  "identifierConstant name s =
     (case map_of (stringConstants (cc s)) (lexeme name) of
        Some i \<Rightarrow> (i, s)
      | None \<Rightarrow>
          (case makeConstant (OBJ_STRING (lexeme name)) s of (index, s1) \<Rightarrow>
             (index, upd_compiler 0
                (\<lambda>c. c\<lparr>stringConstants := (lexeme name, index) # stringConstants c\<rparr>) s1)))"

definition identifiersEqual :: "Token \<Rightarrow> Token \<Rightarrow> bool" where
  "identifiersEqual a b = (lexeme a = lexeme b)"

text \<open>
  The loop of \<^verbatim>\<open>resolveLocal\<close>, from index \<open>i - 1\<close> down to 0: the most recently
  declared local of that name.
\<close>

primrec resolveLocal_loop :: "Local list \<Rightarrow> Token \<Rightarrow> nat \<Rightarrow> nat option" where
  "resolveLocal_loop ls name 0 = None"
| "resolveLocal_loop ls name (Suc i) =
     (if identifiersEqual name (l_name (ls ! i)) then Some i else resolveLocal_loop ls name i)"

definition resolveLocal :: "Compiler \<Rightarrow> Token \<Rightarrow> bool \<Rightarrow> Parser \<Rightarrow> int \<times> Parser" where
  "resolveLocal c name inFunction p =
     (case resolveLocal_loop (locals c) name (length (locals c)) of
        Some i \<Rightarrow>
          (int i,
           if \<not> inFunction \<and> l_depth (locals c ! i) = -1
           then errorAt p (previous p) ''Cannot read local variable in its own initializer.''
           else p)
      | None \<Rightarrow> (-1, p))"

text \<open>The search loop of \<^verbatim>\<open>addUpvalue\<close>, from index \<open>i\<close> upwards.\<close>

fun addUpvalue_loop :: "Upvalue list \<Rightarrow> nat \<Rightarrow> bool \<Rightarrow> nat \<Rightarrow> nat option" where
  "addUpvalue_loop [] index isLocal i = None"
| "addUpvalue_loop (u # us) index isLocal i =
     (if u_index u = index \<and> u_isLocal u = isLocal then Some i
      else addUpvalue_loop us index isLocal (Suc i))"

definition addUpvalue ::
    "Compiler \<Rightarrow> nat \<Rightarrow> bool \<Rightarrow> bool \<Rightarrow> Parser \<Rightarrow> int \<times> Compiler \<times> Parser" where
  "addUpvalue c index isLocal constant p =
     (case addUpvalue_loop (map (upvalues c) [0..<upvalueCount (func c)]) index isLocal 0 of
        Some i \<Rightarrow> (int i, c, p)
      | None \<Rightarrow>
          if upvalueCount (func c) = 256
          then (0, c, errorAt p (previous p) ''Too many closure variables in function.'')
          else (int (upvalueCount (func c)),
                c\<lparr>upvalues := (upvalues c)(upvalueCount (func c) :=
                       \<lparr>u_index = index, u_isLocal = isLocal, u_constant = constant\<rparr>),
                  func := (func c)\<lparr>upvalueCount := upvalueCount (func c) + 1\<rparr>\<rparr>,
                p))"

text \<open>
  \<^verbatim>\<open>resolveUpvalue\<close> on the chain of compilers: the head is \<^verbatim>\<open>compiler\<close>, the
  second element \<^verbatim>\<open>compiler->enclosing\<close>.  It returns the index (or -1) and the
  chain with the marks and upvalue entries it has added.
\<close>

fun resolveUpvalue :: "Compiler list \<Rightarrow> Token \<Rightarrow> Parser \<Rightarrow> int \<times> Compiler list \<times> Parser" where
  "resolveUpvalue [] name p = (-1, [], p)"
| "resolveUpvalue [c] name p = (-1, [c], p)"
| "resolveUpvalue (c # e # rest) name p =
     (case resolveLocal e name True p of (local, p1) \<Rightarrow>
        if local \<noteq> -1
        then (case addUpvalue c (nat (local mod 256)) True (l_constant (locals e ! nat local)) p1 of
                (r, c', p2) \<Rightarrow>
                  (r, c' # e\<lparr>locals := (locals e)[nat local := (locals e ! nat local)\<lparr>l_isUpvalue := True\<rparr>]\<rparr> # rest, p2))
        else (case resolveUpvalue (e # rest) name p1 of (upvalue, es, p2) \<Rightarrow>
                if upvalue \<noteq> -1
                then (case addUpvalue c (nat (upvalue mod 256)) False
                             (u_constant (upvalues (hd es) (nat upvalue))) p2 of
                        (r, c', p3) \<Rightarrow> (r, c' # es, p3))
                else (-1, c # es, p2)))"

definition addLocal :: "Token \<Rightarrow> state \<Rightarrow> state" where
  "addLocal name s =
     (if length (locals (cc s)) = 256 then error ''Too many local variables in function.'' s
      else upd_compiler 0
             (\<lambda>c. c\<lparr>locals := locals c
                      @ [\<lparr>l_name = name, l_depth = -1, l_isUpvalue = False, l_constant = False\<rparr>]\<rparr>) s)"

text \<open>The loop of \<^verbatim>\<open>declareVariable\<close>, from index \<open>i - 1\<close> down to 0.\<close>

primrec declareVariable_loop :: "Token \<Rightarrow> nat \<Rightarrow> state \<Rightarrow> state" where
  "declareVariable_loop name 0 s = s"
| "declareVariable_loop name (Suc i) s =
     (if l_depth (locals (cc s) ! i) \<noteq> -1 \<and> l_depth (locals (cc s) ! i) < scopeDepth (cc s)
      then s
      else declareVariable_loop name i
             (if identifiersEqual name (l_name (locals (cc s) ! i))
              then s\<lparr>parser := errorAt (parser s) name
                      ''Variable with this name already declared in this scope.''\<rparr>
              else s))"

definition declareVariable :: "Token \<Rightarrow> state \<Rightarrow> state" where
  "declareVariable name s =
     (if scopeDepth (cc s) = 0 then s
      else addLocal name (declareVariable_loop name (length (locals (cc s))) s))"

definition parseVariable :: "string \<Rightarrow> bool \<Rightarrow> state \<Rightarrow> nat \<times> state" where
  "parseVariable errorMessage constant s =
     (let s1 = consume TOKEN_IDENTIFIER errorMessage s
      in if scopeDepth (cc s1) = 0 then identifierConstant (previous (parser s1)) s1
         else (0, declareVariable (previous (parser s1)) s1))"

text \<open>
  \<^verbatim>\<open>defineVariable\<close>.  Every caller passes \<^verbatim>\<open>false\<close> for \<^verbatim>\<open>constant\<close>; the branch that
  records a module-level constant reads the pool entry as a string.
\<close>

definition defineVariable :: "nat \<Rightarrow> bool \<Rightarrow> state \<Rightarrow> state" where
  "defineVariable global constant s =
     (if scopeDepth (cc s) = 0
      then emitBytes (Opc OP_DEFINE_MODULE) (u8 (int global))
             (if constant
              then (case constants (currentChunk s) ! global of
                      OBJ_STRING nm \<Rightarrow> s\<lparr>vm := (vm s)\<lparr>vm_constants := nm # vm_constants (vm s)\<rparr>\<rparr>
                    | _ \<Rightarrow> s)
              else s)
      else upd_compiler 0
             (\<lambda>c. c\<lparr>locals := (locals c)[length (locals c) - 1 :=
                       (last (locals c))\<lparr>l_depth := scopeDepth c, l_constant := constant\<rparr>]\<rparr>) s)"

section \<open>Expressions\<close>

text \<open>
  The functions of the parser call each other recursively.  Each is modelled with a
  parameter \<open>rec\<close> that stands for the calls back into \<^verbatim>\<open>parsePrecedence\<close>,
  \<^verbatim>\<open>statement\<close>, \<^verbatim>\<open>declaration\<close> and \<^verbatim>\<open>namedVariable\<close>; \<open>exec\<close> below ties the knot
  with a bound on the depth of these calls.  A loop whose every iteration reads tokens
  is a primitive recursion on a bound \<open>k\<close> on its iterations.
\<close>

datatype call = ParsePrecedence nat | Statement | Declaration | NamedVariable Token bool

type_synonym recur = "call \<Rightarrow> state \<Rightarrow> state outcome"

text \<open>
  Modelled from the spec: the precedence levels (declared in the compiler's header, not
  part of the sources), ascending: NONE, ASSIGNMENT, OR, AND, EQUALITY, COMPARISON,
  TERM, FACTOR, INDICES, UNARY, CALL, PRIMARY.
\<close>

definition PREC_NONE :: nat where "PREC_NONE = 0"
definition PREC_ASSIGNMENT :: nat where "PREC_ASSIGNMENT = 1"
definition PREC_OR :: nat where "PREC_OR = 2"
definition PREC_AND :: nat where "PREC_AND = 3"
definition PREC_EQUALITY :: nat where "PREC_EQUALITY = 4"
definition PREC_COMPARISON :: nat where "PREC_COMPARISON = 5"
definition PREC_TERM :: nat where "PREC_TERM = 6"
definition PREC_FACTOR :: nat where "PREC_FACTOR = 7"
definition PREC_INDICES :: nat where "PREC_INDICES = 8"
definition PREC_UNARY :: nat where "PREC_UNARY = 9"
definition PREC_CALL :: nat where "PREC_CALL = 10"
definition PREC_PRIMARY :: nat where "PREC_PRIMARY = 11"

definition expression :: "recur \<Rightarrow> state \<Rightarrow> state outcome" where
  "expression rec s = rec (ParsePrecedence PREC_ASSIGNMENT) s"

primrec argumentList_loop ::
    "recur \<Rightarrow> nat \<Rightarrow> nat \<Rightarrow> bool \<Rightarrow> state \<Rightarrow> (nat \<times> bool \<times> state) outcome" where
  "argumentList_loop rec 0 argCount unpack s = OutOfFuel"
| "argumentList_loop rec (Suc k) argCount unpack s =
     (case match TOKEN_DOT_DOT_DOT
             (if unpack then errorAtCurrent ''Value unpacking must be the last argument.'' s else s) of
        (spread, s1) \<Rightarrow>
          andThen (expression rec s1) (\<lambda>s2.
            case match TOKEN_COMMA
                   (if argCount + 1 > 255 then error ''Cannot have more than 255 arguments.'' s2 else s2) of
              (True, s3) \<Rightarrow> argumentList_loop rec k (argCount + 1) (spread \<or> unpack) s3
            | (False, s3) \<Rightarrow> Done (argCount + 1, spread \<or> unpack, s3)))"

definition argumentList ::
    "recur \<Rightarrow> nat \<Rightarrow> bool \<Rightarrow> state \<Rightarrow> (nat \<times> bool \<times> state) outcome" where
  "argumentList rec k unpack s =
     andThen (if \<not> check s TOKEN_RIGHT_PAREN then argumentList_loop rec k 0 unpack s
              else Done (0, unpack, s))
       (\<lambda>(argCount, unpack1, s1).
          Done (argCount, unpack1, consume TOKEN_RIGHT_PAREN ''Expect ')' after arguments.'' s1))"

definition and_fn :: "recur \<Rightarrow> Token \<Rightarrow> bool \<Rightarrow> state \<Rightarrow> state outcome" where
  "and_fn rec previousToken canAssign s =
     (case emitJump OP_JUMP_IF_FALSE s of (endJump, s1) \<Rightarrow>
        andThen (rec (ParsePrecedence PREC_AND) (emitByte (Opc OP_POP) s1))
          (\<lambda>s2. Done (patchJump endJump s2)))"

text \<open>
  \<^verbatim>\<open>foldBinary\<close>: the macro \<^verbatim>\<open>FOLD\<close> for the four operators.  The two operand reads
  come first, then the two opcode tests.  A read in front of the chunk, a pool index past
  the pool and \<^verbatim>\<open>AS_NUMBER\<close> of a value that is no number are undefined in C.
\<close>

definition foldBinary :: "encoding \<Rightarrow> TokenType \<Rightarrow> state \<Rightarrow> (bool \<times> state) outcome" where
  "foldBinary enc operatorType s =
     (if operatorType \<notin> {TOKEN_PLUS, TOKEN_MINUS, TOKEN_STAR, TOKEN_SLASH} then Done (False, s)
      else
        let cd = code (currentChunk s); vs = constants (currentChunk s); n = length cd in
        if n < 3 then Stuck OutOfBounds
        else
          let index = byte_val enc (cd ! (n - 1)); constant = byte_val enc (cd ! (n - 3)) in
          if \<not> is_op enc (cd ! (n - 2)) OP_CONSTANT then Done (False, s)
          else if n < 4 then Stuck OutOfBounds
          else if \<not> is_op enc (cd ! (n - 4)) OP_CONSTANT then Done (False, s)
          else if \<not> (constant < length vs \<and> index < length vs) then Stuck OutOfBounds
          else (case (vs ! constant, vs ! index) of
                  (NUMBER_VAL a, NUMBER_VAL b) \<Rightarrow>
                    if operatorType = TOKEN_SLASH \<and> b = 0 then Stuck NonFiniteNumber
                    else Done (True, upd_chunk 0
                           (\<lambda>ch. \<lparr>code = take (n - 2) cd,
                                  constants = butlast (vs[constant := NUMBER_VAL
                                    (if operatorType = TOKEN_PLUS then a + b
                                     else if operatorType = TOKEN_MINUS then a - b
                                     else if operatorType = TOKEN_STAR then a * b
                                     else a / b)])\<rparr>) s)
                | _ \<Rightarrow> Stuck NotANumber))"

text \<open>
  Modelled from the spec: the table of \<^verbatim>\<open>ParseRule\<close> is indexed by token kind; the
  type of its entries is declared in the header.  An entry holds the rule applied to a
  token that begins an expression, the rule applied to a token that follows a left
  operand, and the precedence of the token in that second role.
\<close>

datatype ParsePrefixFn =
  Fn_grouping | Fn_unary | Fn_variable | Fn_string | Fn_number | Fn_literal | Fn_super | Fn_this

datatype ParseOperatorFn = Fn_call | Fn_dot | Fn_binary | Fn_and | Fn_or

record ParseRule =
  rule_prefix :: "ParsePrefixFn option"
  rule_operator :: "ParseOperatorFn option"
  rule_precedence :: nat

definition mkRule :: "ParsePrefixFn option \<Rightarrow> ParseOperatorFn option \<Rightarrow> nat \<Rightarrow> ParseRule" where
  "mkRule a b c = \<lparr>rule_prefix = a, rule_operator = b, rule_precedence = c\<rparr>"

text \<open>
  The table \<^verbatim>\<open>rules\<close>.  A token kind without an entry of its own gets the entry of
  all zeros, as an array element without initialiser does.
\<close>

definition getRule :: "TokenType \<Rightarrow> ParseRule" where
  "getRule ty =
     (case ty of
        TOKEN_LEFT_PAREN \<Rightarrow> mkRule (Some Fn_grouping) (Some Fn_call) PREC_CALL
      | TOKEN_DOT \<Rightarrow> mkRule None (Some Fn_dot) PREC_CALL
      | TOKEN_MINUS \<Rightarrow> mkRule (Some Fn_unary) (Some Fn_binary) PREC_TERM
      | TOKEN_PLUS \<Rightarrow> mkRule None (Some Fn_binary) PREC_TERM
      | TOKEN_SLASH \<Rightarrow> mkRule None (Some Fn_binary) PREC_FACTOR
      | TOKEN_STAR \<Rightarrow> mkRule None (Some Fn_binary) PREC_FACTOR
      | TOKEN_NOT \<Rightarrow> mkRule (Some Fn_unary) None PREC_NONE
      | TOKEN_BANG_EQUAL \<Rightarrow> mkRule None (Some Fn_binary) PREC_EQUALITY
      | TOKEN_EQUAL_EQUAL \<Rightarrow> mkRule None (Some Fn_binary) PREC_EQUALITY
      | TOKEN_GREATER \<Rightarrow> mkRule None (Some Fn_binary) PREC_COMPARISON
      | TOKEN_GREATER_EQUAL \<Rightarrow> mkRule None (Some Fn_binary) PREC_COMPARISON
      | TOKEN_LESS \<Rightarrow> mkRule None (Some Fn_binary) PREC_COMPARISON
      | TOKEN_LESS_EQUAL \<Rightarrow> mkRule None (Some Fn_binary) PREC_COMPARISON
      | TOKEN_IDENTIFIER \<Rightarrow> mkRule (Some Fn_variable) None PREC_NONE
      | TOKEN_STRING \<Rightarrow> mkRule (Some Fn_string) None PREC_NONE
      | TOKEN_NUMBER \<Rightarrow> mkRule (Some Fn_number) None PREC_NONE
      | TOKEN_AND \<Rightarrow> mkRule None (Some Fn_and) PREC_AND
      | TOKEN_FALSE \<Rightarrow> mkRule (Some Fn_literal) None PREC_NONE
      | TOKEN_NIL \<Rightarrow> mkRule (Some Fn_literal) None PREC_NONE
      | TOKEN_OR \<Rightarrow> mkRule None (Some Fn_or) PREC_OR
      | TOKEN_SUPER \<Rightarrow> mkRule (Some Fn_super) None PREC_NONE
      | TOKEN_THIS \<Rightarrow> mkRule (Some Fn_this) None PREC_NONE
      | TOKEN_TRUE \<Rightarrow> mkRule (Some Fn_literal) None PREC_NONE
      | TOKEN_PERCENT \<Rightarrow> mkRule None (Some Fn_binary) PREC_FACTOR
      | TOKEN_STAR_STAR \<Rightarrow> mkRule None (Some Fn_binary) PREC_INDICES
      | _ \<Rightarrow> mkRule None None PREC_NONE)"

text \<open>The final \<^verbatim>\<open>switch\<close> of \<^verbatim>\<open>binary\<close>.\<close>

definition binary_emit :: "TokenType \<Rightarrow> state \<Rightarrow> state" where
  "binary_emit operatorType s =
     (case operatorType of
        TOKEN_BANG_EQUAL \<Rightarrow> emitBytes (Opc OP_EQUAL) (Opc OP_NOT) s
      | TOKEN_EQUAL_EQUAL \<Rightarrow> emitByte (Opc OP_EQUAL) s
      | TOKEN_GREATER \<Rightarrow> emitByte (Opc OP_GREATER) s
      | TOKEN_GREATER_EQUAL \<Rightarrow> emitBytes (Opc OP_LESS) (Opc OP_NOT) s
      | TOKEN_LESS \<Rightarrow> emitByte (Opc OP_LESS) s
      | TOKEN_LESS_EQUAL \<Rightarrow> emitBytes (Opc OP_GREATER) (Opc OP_NOT) s
      | TOKEN_PLUS \<Rightarrow> emitByte (Opc OP_ADD) s
      | TOKEN_MINUS \<Rightarrow> emitByte (Opc OP_SUBTRACT) s
      | TOKEN_STAR \<Rightarrow> emitByte (Opc OP_MULTIPLY) s
      | TOKEN_SLASH \<Rightarrow> emitByte (Opc OP_DIVIDE) s
      | TOKEN_AMPERSAND \<Rightarrow> emitByte (Opc OP_BITWISE_AND) s
      | TOKEN_CARET \<Rightarrow> emitByte (Opc OP_BITWISE_XOR) s
      | TOKEN_PIPE \<Rightarrow> emitByte (Opc OP_BITWISE_OR) s
      | _ \<Rightarrow> s)"

definition binary :: "encoding \<Rightarrow> recur \<Rightarrow> Token \<Rightarrow> bool \<Rightarrow> state \<Rightarrow> state outcome" where
  "binary enc rec previousToken canAssign s =
     andThen (rec (ParsePrecedence (rule_precedence (getRule (ttype (previous (parser s)))) + 1)) s)
       (\<lambda>s1.
          andThen
            (if ttype previousToken = TOKEN_NUMBER
                \<and> (ttype (previous (parser s1)) = TOKEN_NUMBER
                    \<or> ttype (previous (parser s1)) = TOKEN_LEFT_PAREN)
             then foldBinary enc (ttype (previous (parser s))) s1
             else Done (False, s1))
            (\<lambda>(folded, s2).
               if folded then Done s2
               else Done (binary_emit (ttype (previous (parser s))) s2)))"

definition call_fn :: "recur \<Rightarrow> nat \<Rightarrow> Token \<Rightarrow> bool \<Rightarrow> state \<Rightarrow> state outcome" where
  "call_fn rec k previousToken canAssign s =
     andThen (argumentList rec k False s)
       (\<lambda>(argCount, unpack, s1).
          Done (emitByte (Raw (if unpack then 1 else 0))
                  (emitBytes (Opc OP_CALL) (u8 (int argCount)) s1)))"

text \<open>
  The seven branches \<^verbatim>\<open>else if (canAssign && match(compiler, TOKEN_X_EQUALS))\<close> of
  \<^verbatim>\<open>dot\<close> and of \<^verbatim>\<open>namedVariable\<close> differ only in the token and in the opcode they
  emit; this is the table of the pairs.
\<close>

definition compoundOp :: "TokenType \<Rightarrow> OpCode option" where
  "compoundOp ty =
     (case ty of
        TOKEN_PLUS_EQUALS \<Rightarrow> Some OP_ADD
      | TOKEN_MINUS_EQUALS \<Rightarrow> Some OP_SUBTRACT
      | TOKEN_MULTIPLY_EQUALS \<Rightarrow> Some OP_MULTIPLY
      | TOKEN_DIVIDE_EQUALS \<Rightarrow> Some OP_DIVIDE
      | TOKEN_AMPERSAND_EQUALS \<Rightarrow> Some OP_BITWISE_AND
      | TOKEN_CARET_EQUALS \<Rightarrow> Some OP_BITWISE_XOR
      | TOKEN_PIPE_EQUALS \<Rightarrow> Some OP_BITWISE_OR
      | _ \<Rightarrow> None)"

definition currentClass :: "state \<Rightarrow> ClassCompiler" where
  "currentClass s = classes s ! the (klass (cc s))"

definition dot :: "recur \<Rightarrow> nat \<Rightarrow> Token \<Rightarrow> bool \<Rightarrow> state \<Rightarrow> state outcome" where
  "dot rec k previousToken canAssign s =
     (case identifierConstant
             (previous (parser (consume TOKEN_IDENTIFIER ''Expect property name after '.'.'' s)))
             (consume TOKEN_IDENTIFIER ''Expect property name after '.'.'' s) of
        (name, s1) \<Rightarrow>
          (case match TOKEN_LEFT_PAREN s1 of
             (True, s2) \<Rightarrow>
               andThen (argumentList rec k False s2)
                 (\<lambda>(argCount, unpack, s3).
                    Done (emitBytes (u8 (int name)) (Raw (if unpack then 1 else 0))
                            (emitBytes
                               (Opc (if klass (cc s3) \<noteq> None
                                        \<and> (ttype previousToken = TOKEN_THIS
                                            \<or> identifiersEqual previousToken (c_name (currentClass s3)))
                                     then OP_INVOKE_INTERNAL else OP_INVOKE))
                               (u8 (int argCount)) s3)))
           | (False, s2) \<Rightarrow>
               if klass (cc s2) \<noteq> None \<and> (ttype previousToken = TOKEN_THIS \<and> False) then Done s2
               else if canAssign \<and> check s2 TOKEN_EQUAL
               then andThen (expression rec (advance s2))
                      (\<lambda>s3. Done (emitBytes (Opc OP_SET_PROPERTY) (u8 (int name)) s3))
               else if canAssign \<and> compoundOp (ttype (current (parser s2))) \<noteq> None
               then andThen
                      (expression rec
                         (emitBytes (Opc OP_GET_PROPERTY_NO_POP) (u8 (int name)) (advance s2)))
                      (\<lambda>s3. Done (emitBytes (Opc OP_SET_PROPERTY) (u8 (int name))
                                    (emitByte (Opc (the (compoundOp (ttype (current (parser s2)))))) s3)))
               else Done (emitBytes (Opc OP_GET_PROPERTY) (u8 (int name)) s2)))"

definition literal_fn :: "bool \<Rightarrow> state \<Rightarrow> state" where
  "literal_fn canAssign s =
     (case ttype (previous (parser s)) of
        TOKEN_FALSE \<Rightarrow> emitByte (Opc OP_FALSE) s
      | TOKEN_NIL \<Rightarrow> emitByte (Opc OP_NIL) s
      | TOKEN_TRUE \<Rightarrow> emitByte (Opc OP_TRUE) s
      | _ \<Rightarrow> s)"

definition grouping :: "recur \<Rightarrow> bool \<Rightarrow> state \<Rightarrow> state outcome" where
  "grouping rec canAssign s =
     andThen (expression rec s)
       (\<lambda>s1. Done (consume TOKEN_RIGHT_PAREN ''Expect ')' after expression.'' s1))"

text \<open>
  \<^verbatim>\<open>strtod\<close> of the C library on the lexemes of number tokens: decimal digits with an
  optional fraction.
\<close>

definition is_digit :: "char \<Rightarrow> bool" where
  "is_digit c = (48 \<le> (of_char c :: nat) \<and> (of_char c :: nat) \<le> 57)"

definition digits_val :: "string \<Rightarrow> nat" where
  "digits_val ds = foldl (\<lambda>a c. 10 * a + ((of_char c :: nat) - 48)) 0 ds"

definition strtod :: "string \<Rightarrow> real" where
  "strtod str =
     (let ip = takeWhile is_digit str; rest = dropWhile is_digit str;
          fp = (case rest of [] \<Rightarrow> [] | c # r \<Rightarrow> if c = CHR ''.'' then takeWhile is_digit r else [])
      in real (digits_val ip) + real (digits_val fp) / 10 ^ length fp)"

definition parseNumber :: "bool \<Rightarrow> state \<Rightarrow> Value" where
  "parseNumber canAssign s =
     NUMBER_VAL (strtod (filter (\<lambda>c. c \<noteq> CHR ''_'') (lexeme (previous (parser s)))))"

definition number :: "bool \<Rightarrow> state \<Rightarrow> state" where
  "number canAssign s = emitConstant (parseNumber canAssign s) s"

definition or_fn :: "recur \<Rightarrow> Token \<Rightarrow> bool \<Rightarrow> state \<Rightarrow> state outcome" where
  "or_fn rec previousToken canAssign s =
     (case emitJump OP_JUMP_IF_FALSE s of (elseJump, s1) \<Rightarrow>
        case emitJump OP_JUMP s1 of (endJump, s2) \<Rightarrow>
          andThen (rec (ParsePrecedence PREC_OR) (emitByte (Opc OP_POP) (patchJump elseJump s2)))
            (\<lambda>s3. Done (patchJump endJump s3)))"

text \<open>
  \<^verbatim>\<open>parseEscapeSequences\<close> rewrites the buffer in place and returns the new length;
  the model returns the resulting string.  After a recognised escape the scan goes on
  behind the replaced character; after an unknown one it goes on with the character
  that followed the backslash.
\<close>

fun parseEscapeSequences :: "string \<Rightarrow> string" where
  "parseEscapeSequences (c # d # r) =
     (if c = CHR 0x5C then
        (if d = CHR ''n'' then CHR 0x0A # parseEscapeSequences r
         else if d = CHR ''t'' then CHR 0x09 # parseEscapeSequences r
         else if d = CHR ''r'' then CHR 0x0D # parseEscapeSequences r
         else if d = CHR ''v'' then CHR 0x0B # parseEscapeSequences r
         else if d = CHR 0x5C then CHR 0x5C # parseEscapeSequences r
         else if d = CHR 0x27 \<or> d = CHR 0x22 then d # parseEscapeSequences r
         else c # parseEscapeSequences (d # r))
      else c # parseEscapeSequences (d # r))"
| "parseEscapeSequences cs = cs"

definition rString :: "bool \<Rightarrow> state \<Rightarrow> state" where
  "rString canAssign s =
     (case match TOKEN_STRING s of
        (True, s1) \<Rightarrow> emitConstant (OBJ_STRING (butlast (tl (lexeme (previous (parser s1)))))) s1
      | (False, s1) \<Rightarrow> consume TOKEN_STRING ''Expected string after r delimiter'' s1)"

definition parseString :: "bool \<Rightarrow> state \<Rightarrow> Value" where
  "parseString canAssign s =
     OBJ_STRING (parseEscapeSequences (butlast (tl (lexeme (previous (parser s))))))"

definition string_fn :: "bool \<Rightarrow> state \<Rightarrow> state" where
  "string_fn canAssign s = emitConstant (parseString canAssign s) s"

definition checkConst :: "OpCode \<Rightarrow> int \<Rightarrow> state \<Rightarrow> state outcome" where
  "checkConst setOp arg s =
     (if setOp = OP_SET_LOCAL
      then Done (if l_constant (locals (cc s) ! nat arg)
                 then error ''Cannot assign to a constant.'' s else s)
      else if setOp = OP_SET_UPVALUE
      then Done (if u_constant (upvalues (cc s) (nat arg))
                 then error ''Cannot assign to a constant.'' s else s)
      else if setOp = OP_SET_MODULE
      then (if nat arg < length (constants (currentChunk s))
            then (case constants (currentChunk s) ! nat arg of
                    OBJ_STRING nm \<Rightarrow>
                      Done (if nm \<in> set (vm_constants (vm s))
                            then error ''Cannot assign to a constant.'' s else s)
                  | _ \<Rightarrow> Stuck NotAString)
            else Stuck OutOfBounds)
      else Done s)"

text \<open>
  The first part of \<^verbatim>\<open>namedVariable\<close>, which chooses the opcodes: the get opcode, the
  set opcode (not assigned on the path of a global name), the operand and the value of
  \<^verbatim>\<open>canAssign\<close> after it.
\<close>

definition namedVariable_select ::
    "Token \<Rightarrow> bool \<Rightarrow> state \<Rightarrow> OpCode \<times> OpCode option \<times> int \<times> bool \<times> state" where
  "namedVariable_select name canAssign s =
     (case resolveLocal (cc s) name False (parser s) of (arg, p1) \<Rightarrow>
        if arg \<noteq> -1 then (OP_GET_LOCAL, Some OP_SET_LOCAL, arg, canAssign, s\<lparr>parser := p1\<rparr>)
        else (case resolveUpvalue (compilers s) name p1 of (arg1, cs, p2) \<Rightarrow>
                if arg1 \<noteq> -1
                then (OP_GET_UPVALUE, Some OP_SET_UPVALUE, arg1, canAssign,
                      s\<lparr>parser := p2, compilers := cs\<rparr>)
                else (case identifierConstant name (s\<lparr>parser := p2, compilers := cs\<rparr>) of
                        (arg2, s1) \<Rightarrow>
                          if lexeme name \<in> set (globals (vm s1))
                          then (OP_GET_GLOBAL, None, int arg2, False, s1)
                          else (OP_GET_MODULE, Some OP_SET_MODULE, int arg2, canAssign, s1))))"

definition namedVariable :: "recur \<Rightarrow> Token \<Rightarrow> bool \<Rightarrow> state \<Rightarrow> state outcome" where
  "namedVariable rec name canAssign0 s0 =
     (case namedVariable_select name canAssign0 s0 of
        (getOp, setOp, arg, canAssign, s) \<Rightarrow>
          if canAssign \<and> check s TOKEN_EQUAL
          then (case setOp of
                  None \<Rightarrow> Stuck Uninitialised
                | Some sop \<Rightarrow>
                    andThen (checkConst sop arg (advance s)) (\<lambda>s1.
                    andThen (expression rec s1) (\<lambda>s2.
                      Done (emitBytes (Opc sop) (u8 arg) s2))))
          else if canAssign \<and> compoundOp (ttype (current (parser s))) \<noteq> None
          then (case setOp of
                  None \<Rightarrow> Stuck Uninitialised
                | Some sop \<Rightarrow>
                    andThen (checkConst sop arg (advance s)) (\<lambda>s1.
                    andThen (rec (NamedVariable name False) s1) (\<lambda>s2.
                    andThen (expression rec s2) (\<lambda>s3.
                      Done (emitBytes (Opc sop) (u8 arg)
                              (emitByte (Opc (the (compoundOp (ttype (current (parser s)))))) s3))))))
          else Done (emitBytes (Opc getOp) (u8 arg) s))"

definition variable :: "recur \<Rightarrow> bool \<Rightarrow> state \<Rightarrow> state outcome" where
  "variable rec canAssign s = namedVariable rec (previous (parser s)) canAssign s"

text \<open>A synthetic token has a lexeme only; its kind is never read.\<close>

definition syntheticToken :: "string \<Rightarrow> Token" where
  "syntheticToken text = \<lparr>ttype = TOKEN_IDENTIFIER, lexeme = text\<rparr>"

definition pushSuperclass :: "recur \<Rightarrow> state \<Rightarrow> state outcome" where
  "pushSuperclass rec s =
     (if klass (cc s) = None then Done s
      else namedVariable rec (syntheticToken ''super'') False s)"

definition super_fn :: "recur \<Rightarrow> nat \<Rightarrow> bool \<Rightarrow> state \<Rightarrow> state outcome" where
  "super_fn rec k canAssign s =
     (case identifierConstant
             (previous (parser
                (consume TOKEN_IDENTIFIER ''Expect superclass method name.''
                   (consume TOKEN_DOT ''Expect '.' after 'super'.''
                      (if klass (cc s) = None
                       then error ''Cannot utilise 'super' outside of a class.'' s
                       else if \<not> c_hasSuperclass (currentClass s)
                       then error ''Cannot utilise 'super' in a class with no superclass.'' s
                       else s)))))
             (consume TOKEN_IDENTIFIER ''Expect superclass method name.''
                (consume TOKEN_DOT ''Expect '.' after 'super'.''
                   (if klass (cc s) = None
                    then error ''Cannot utilise 'super' outside of a class.'' s
                    else if \<not> c_hasSuperclass (currentClass s)
                    then error ''Cannot utilise 'super' in a class with no superclass.'' s
                    else s))) of
        (name, s1) \<Rightarrow>
          andThen (namedVariable rec (syntheticToken ''this'') False s1) (\<lambda>s2.
            case match TOKEN_LEFT_PAREN s2 of
              (True, s3) \<Rightarrow>
                andThen (argumentList rec k False s3) (\<lambda>(argCount, unpack, s4).
                andThen (pushSuperclass rec s4) (\<lambda>s5.
                  Done (emitBytes (u8 (int name)) (Raw (if unpack then 1 else 0))
                          (emitBytes (Opc OP_SUPER) (u8 (int argCount)) s5))))
            | (False, s3) \<Rightarrow>
                andThen (pushSuperclass rec s3) (\<lambda>s4.
                  Done (emitBytes (Opc OP_GET_SUPER) (u8 (int name)) s4))))"

definition this_fn :: "recur \<Rightarrow> bool \<Rightarrow> state \<Rightarrow> state outcome" where
  "this_fn rec canAssign s =
     (if klass (cc s) = None then Done (error ''Cannot utilise 'this' outside of a class.'' s)
      else if c_staticMethod (currentClass s)
      then Done (error ''Cannot utilise 'this' inside a static method.'' s)
      else variable rec False s)"

text \<open>
  \<^verbatim>\<open>foldUnary\<close> looks at the kind of the last token of the operand and rewrites the
  last byte of the chunk, or the pool entry that the last byte names.
\<close>

definition foldUnary :: "encoding \<Rightarrow> TokenType \<Rightarrow> state \<Rightarrow> (bool \<times> state) outcome" where
  "foldUnary enc operatorType s =
     (let valueToken = ttype (previous (parser s));
          cd = code (currentChunk s); vs = constants (currentChunk s); n = length cd in
      if operatorType = TOKEN_NOT then
        (if valueToken = TOKEN_TRUE
         then (if n < 1 then Stuck OutOfBounds
               else Done (True, upd_chunk 0 (\<lambda>ch. ch\<lparr>code := cd[n - 1 := Opc OP_FALSE]\<rparr>) s))
         else if valueToken = TOKEN_FALSE
         then (if n < 1 then Stuck OutOfBounds
               else Done (True, upd_chunk 0 (\<lambda>ch. ch\<lparr>code := cd[n - 1 := Opc OP_TRUE]\<rparr>) s))
         else Done (False, s))
      else if operatorType = TOKEN_MINUS then
        (if valueToken = TOKEN_NUMBER
         then (if n < 1 then Stuck OutOfBounds
               else if \<not> byte_val enc (cd ! (n - 1)) < length vs then Stuck OutOfBounds
               else (case vs ! byte_val enc (cd ! (n - 1)) of
                       NUMBER_VAL a \<Rightarrow>
                         Done (True, upd_chunk 0
                           (\<lambda>ch. ch\<lparr>constants := vs[byte_val enc (cd ! (n - 1)) := NUMBER_VAL (- a)]\<rparr>) s)
                     | _ \<Rightarrow> Stuck NotANumber))
         else Done (False, s))
      else Done (False, s))"

definition unary :: "encoding \<Rightarrow> recur \<Rightarrow> bool \<Rightarrow> state \<Rightarrow> state outcome" where
  "unary enc rec canAssign s =
     andThen (rec (ParsePrecedence PREC_UNARY) s) (\<lambda>s1.
     andThen (foldUnary enc (ttype (previous (parser s))) s1) (\<lambda>(folded, s2).
       if folded then Done s2
       else if ttype (previous (parser s)) = TOKEN_NOT then Done (emitByte (Opc OP_NOT) s2)
       else if ttype (previous (parser s)) = TOKEN_MINUS then Done (emitByte (Opc OP_NEGATE) s2)
       else Done s2))"

definition prefixRule ::
    "encoding \<Rightarrow> recur \<Rightarrow> nat \<Rightarrow> ParsePrefixFn \<Rightarrow> bool \<Rightarrow> state \<Rightarrow> state outcome" where
  "prefixRule enc rec k fn canAssign s =
     (case fn of
        Fn_grouping \<Rightarrow> grouping rec canAssign s
      | Fn_unary \<Rightarrow> unary enc rec canAssign s
      | Fn_variable \<Rightarrow> variable rec canAssign s
      | Fn_string \<Rightarrow> Done (string_fn canAssign s)
      | Fn_number \<Rightarrow> Done (number canAssign s)
      | Fn_literal \<Rightarrow> Done (literal_fn canAssign s)
      | Fn_super \<Rightarrow> super_fn rec k canAssign s
      | Fn_this \<Rightarrow> this_fn rec canAssign s)"

definition operatorRule ::
    "encoding \<Rightarrow> recur \<Rightarrow> nat \<Rightarrow> ParseOperatorFn \<Rightarrow> Token \<Rightarrow> bool \<Rightarrow> state \<Rightarrow> state outcome" where
  "operatorRule enc rec k fn token canAssign s =
     (case fn of
        Fn_call \<Rightarrow> call_fn rec k token canAssign s
      | Fn_dot \<Rightarrow> dot rec k token canAssign s
      | Fn_binary \<Rightarrow> binary enc rec token canAssign s
      | Fn_and \<Rightarrow> and_fn rec token canAssign s
      | Fn_or \<Rightarrow> or_fn rec token canAssign s)"

text \<open>
  The \<^verbatim>\<open>while\<close> loop of \<^verbatim>\<open>parsePrecedence\<close>.  \<open>k0\<close> is the bound handed to the rules,
  \<open>k\<close> the bound on the iterations of this loop.
\<close>

primrec parsePrecedence_loop ::
    "encoding \<Rightarrow> recur \<Rightarrow> nat \<Rightarrow> nat \<Rightarrow> nat \<Rightarrow> bool \<Rightarrow> state \<Rightarrow> state outcome" where
  "parsePrecedence_loop enc rec k0 0 precedence canAssign s = OutOfFuel"
| "parsePrecedence_loop enc rec k0 (Suc k) precedence canAssign s =
     (if precedence \<le> rule_precedence (getRule (ttype (current (parser s))))
      then (case rule_operator (getRule (ttype (previous (parser (advance s))))) of
              None \<Rightarrow> Stuck NullRule
            | Some fn \<Rightarrow>
                andThen (operatorRule enc rec k0 fn (previous (parser s)) canAssign (advance s))
                  (parsePrecedence_loop enc rec k0 k precedence canAssign))
      else Done s)"

definition parsePrecedence :: "encoding \<Rightarrow> recur \<Rightarrow> nat \<Rightarrow> nat \<Rightarrow> state \<Rightarrow> state outcome" where
  "parsePrecedence enc rec k precedence s =
     (case rule_prefix (getRule (ttype (previous (parser (advance s))))) of
        None \<Rightarrow> Done (error ''Expect expression.'' (advance s))
      | Some fn \<Rightarrow>
          andThen (prefixRule enc rec k fn (precedence \<le> PREC_ASSIGNMENT) (advance s)) (\<lambda>s1.
          andThen (parsePrecedence_loop enc rec k k precedence (precedence \<le> PREC_ASSIGNMENT) s1) (\<lambda>s2.
            if precedence \<le> PREC_ASSIGNMENT
            then (case match TOKEN_EQUAL s2 of
                    (True, s3) \<Rightarrow> Done (error ''Invalid assignment target.'' s3)
                  | (False, s3) \<Rightarrow> Done s3)
            else Done s2)))"

section \<open>Functions and classes\<close>

primrec block_loop :: "recur \<Rightarrow> nat \<Rightarrow> state \<Rightarrow> state outcome" where
  "block_loop rec 0 s = OutOfFuel"
| "block_loop rec (Suc k) s =
     (if \<not> check s TOKEN_RIGHT_BRACE \<and> \<not> check s TOKEN_EOF
      then andThen (rec Declaration s) (block_loop rec k)
      else Done s)"

definition block :: "recur \<Rightarrow> nat \<Rightarrow> state \<Rightarrow> state outcome" where
  "block rec k s =
     andThen (block_loop rec k s)
       (\<lambda>s1. Done (consume TOKEN_RIGHT_BRACE ''Expect '}' after block.'' s1))"

text \<open>
  The parameter loop of \<^verbatim>\<open>beginFunction\<close>.  The arrays \<^verbatim>\<open>identifiers\<close> and
  \<^verbatim>\<open>indexes\<close> (255 entries each) are written at index \<^verbatim>\<open>propertyCount\<close> and never
  read; only the bound of the write is kept.
\<close>

primrec beginFunction_loop ::
    "recur \<Rightarrow> FunctionType \<Rightarrow> nat \<Rightarrow> bool \<Rightarrow> bool \<Rightarrow> state \<Rightarrow> state outcome" where
  "beginFunction_loop rec type 0 optional isSpreadParam s = OutOfFuel"
| "beginFunction_loop rec type (Suc k) optional isSpreadParam s =
     (let s1 = (if isSpreadParam
                then error ''spread parameter must be last in the parameter list'' s else s);
          (varKeyword, s2) = match TOKEN_VAR s1;
          (isSpread, s3) = match TOKEN_DOT_DOT_DOT s2;
          s4 = consume TOKEN_IDENTIFIER ''Expect parameter name.'' s3;
          (paramConstant, s5) = identifierConstant (previous (parser s4)) s4;
          s6 = defineVariable paramConstant False (declareVariable (previous (parser s5)) s5)
      in if type = TYPE_INITIALIZER \<and> varKeyword \<and> propertyCount (func (cc s6)) \<ge> 255
         then Stuck OutOfBounds
         else
           let s7 = (if type = TYPE_INITIALIZER \<and> varKeyword
                     then upd_compiler 0
                            (\<lambda>c. c\<lparr>func := (func c)\<lparr>propertyCount := propertyCount (func c) + 1\<rparr>\<rparr>) s6
                     else if varKeyword
                     then error ''var keyword in a function definition that is not a class constructor'' s6
                     else s6);
               s8 = (if isSpread
                     then upd_compiler 0 (\<lambda>c. c\<lparr>func := (func c)\<lparr>isVariadic := True\<rparr>\<rparr>)
                            (if type = TYPE_INITIALIZER
                             then error ''spread parameter cannot be used in a class constructor'' s7
                             else s7)
                     else s7);
               (hasDefault, s9) = match TOKEN_EQUAL s8
           in andThen
                (if hasDefault
                 then expression rec
                        (upd_compiler 0
                           (\<lambda>c. c\<lparr>func := (func c)\<lparr>arityOptional := arityOptional (func c) + 1\<rparr>\<rparr>)
                           (if isSpread
                            then error ''spread parameter cannot have an optional value'' s9 else s9))
                 else Done
                        ((if optional
                          then error ''Cannot have non-optional parameter after optional.''
                          else id)
                           (upd_compiler 0 (\<lambda>c. c\<lparr>func := (func c)\<lparr>arity := arity (func c) + 1\<rparr>\<rparr>) s9)))
                (\<lambda>s10.
                   case match TOKEN_COMMA
                          (if arity (func (cc s10)) + arityOptional (func (cc s10)) > 255
                           then error ''Cannot have more than 255 parameters.'' s10 else s10) of
                     (True, s11) \<Rightarrow> beginFunction_loop rec type k (hasDefault \<or> optional) isSpread s11
                   | (False, s11) \<Rightarrow> Done s11))"

definition beginFunction :: "recur \<Rightarrow> nat \<Rightarrow> FunctionType \<Rightarrow> state \<Rightarrow> state outcome" where
  "beginFunction rec k type s =
     (let s1 = consume TOKEN_LEFT_PAREN ''Expect '(' after function name.''
                 (beginScope (initCompiler type s))
      in andThen
           (if \<not> check s1 TOKEN_RIGHT_PAREN
            then andThen (beginFunction_loop rec type k False False s1)
                   (\<lambda>s2. Done (if arityOptional (func (cc s2)) > 0
                                then emitBytes (u8 (int (arity (func (cc s2)))))
                                       (u8 (int (arityOptional (func (cc s2)))))
                                       (emitByte (Opc OP_DEFINE_OPTIONAL) s2)
                                else s2))
            else Done s1)
           (\<lambda>s3. Done (consume TOKEN_RIGHT_PAREN ''Expect ')' after parameters.'' s3)))"

definition function_fn :: "recur \<Rightarrow> nat \<Rightarrow> FunctionType \<Rightarrow> state \<Rightarrow> state outcome" where
  "function_fn rec k type s =
     andThen (beginFunction rec k type s) (\<lambda>s1.
     andThen (block rec k (consume TOKEN_LEFT_BRACE ''Expect '{' before function body.'' s1)) (\<lambda>s2.
       Done (snd (endCompiler s2))))"

text \<open>
  \<^verbatim>\<open>method\<close>; every caller passes a null \<^verbatim>\<open>identifier\<close>, so the name is the token
  consumed here.  The type is never \<^verbatim>\<open>TYPE_ABSTRACT\<close> at the test.
\<close>

definition method_fn :: "recur \<Rightarrow> nat \<Rightarrow> state \<Rightarrow> state outcome" where
  "method_fn rec k s =
     (case klass (cc s) of
        None \<Rightarrow> Stuck NullClass
      | Some ci \<Rightarrow>
          let s1 = consume TOKEN_IDENTIFIER ''Expect method name.''
                     (s\<lparr>classes := (classes s)[ci := (classes s ! ci)\<lparr>c_staticMethod := False\<rparr>]\<rparr>);
              (constant, s2) = identifierConstant (previous (parser s1)) s1;
              type = (if lexeme (previous (parser s2)) = ''init'' then TYPE_INITIALIZER else TYPE_METHOD)
          in if type \<noteq> TYPE_ABSTRACT
             then andThen (function_fn rec k type s2)
                    (\<lambda>s3. Done (emitBytes (Opc OP_METHOD) (u8 (int constant)) s3))
             else andThen (beginFunction rec k TYPE_ABSTRACT s2)
                    (\<lambda>s3. let s4 = snd (endCompiler s3)
                          in if check s4 TOKEN_LEFT_BRACE
                             then Done (error ''Abstract methods can not have an implementation.'' s4)
                             else Done (emitBytes (Opc OP_METHOD) (u8 (int constant)) s4)))"

text \<open>
  Class compilers live on the C stack and are reached through pointers that nested
  compilers copy; here they live in the store \<open>classes\<close> and a pointer is an index.
\<close>

definition setupClassCompiler :: "bool \<Rightarrow> state \<Rightarrow> state" where
  "setupClassCompiler abstract s =
     upd_compiler 0 (\<lambda>c. c\<lparr>klass := Some (length (classes s))\<rparr>)
       (s\<lparr>classes := classes s
            @ [\<lparr>c_name = previous (parser s), c_hasSuperclass = False,
                c_enclosing = klass (cc s), c_staticMethod = False,
                c_abstractClass = abstract\<rparr>]\<rparr>)"

definition endClassCompiler :: "state \<Rightarrow> state" where
  "endClassCompiler s = upd_compiler 0 (\<lambda>c. c\<lparr>klass := c_enclosing (currentClass s)\<rparr>) s"

primrec parseClassBody_loop :: "recur \<Rightarrow> nat \<Rightarrow> nat \<Rightarrow> bool \<Rightarrow> state \<Rightarrow> state outcome" where
  "parseClassBody_loop rec k0 0 methodHasAnnotation s = OutOfFuel"
| "parseClassBody_loop rec k0 (Suc k) methodHasAnnotation s =
     (if \<not> check s TOKEN_RIGHT_BRACE \<and> \<not> check s TOKEN_EOF
      then (case match TOKEN_VAR s of
              (True, s1) \<Rightarrow>
                (let s2 = consume TOKEN_IDENTIFIER ''Expect class variable name.''
                            (if methodHasAnnotation
                             then consume TOKEN_VAR ''Annotations not allowed on `var` statements'' s1
                             else s1);
                     (name, s3) = identifierConstant (previous (parser s2)) s2
                 in andThen
                      (expression rec
                         (consume TOKEN_EQUAL ''Expect '=' after class variable identifier.'' s3))
                      (\<lambda>s4. parseClassBody_loop rec k0 k methodHasAnnotation
                              (consume TOKEN_SEMICOLON ''Expect ';' after class variable declaration.''
                                 (emitByte (Raw 0)
                                    (emitBytes (Opc OP_SET_CLASS_VAR) (u8 (int name)) s4)))))
            | (False, s1) \<Rightarrow>
                andThen (method_fn rec k0 s1) (parseClassBody_loop rec k0 k methodHasAnnotation))
      else Done s)"

definition parseClassBody :: "recur \<Rightarrow> nat \<Rightarrow> state \<Rightarrow> state outcome" where
  "parseClassBody rec k s = parseClassBody_loop rec k k False s"

text \<open>
  Modelled from the spec: \<^verbatim>\<open>CLASS_DEFAULT\<close>, the class-kind byte of a plain class; its
  value is declared in a header that is not part of the sources.
\<close>

definition CLASS_DEFAULT :: nat where
  "CLASS_DEFAULT = 0"

definition classDeclaration :: "recur \<Rightarrow> nat \<Rightarrow> state \<Rightarrow> state outcome" where
  "classDeclaration rec k s =
     (let s1 = consume TOKEN_IDENTIFIER ''Expect class name.'' s;
          (nameConstant, s2) = identifierConstant (previous (parser s1)) s1;
          s3 = setupClassCompiler False (declareVariable (previous (parser s2)) s2);
          (hasSuper, s4) = match TOKEN_LESS s3
      in andThen
           (if hasSuper
            then andThen (expression rec s4)
                   (\<lambda>s5. Done (emitBytes (Opc OP_SUBCLASS) (Raw CLASS_DEFAULT)
                                 (addLocal (syntheticToken ''super'')
                                    (beginScope
                                       (s5\<lparr>classes := (classes s5)[the (klass (cc s5)) :=
                                              (currentClass s5)\<lparr>c_hasSuperclass := True\<rparr>]\<rparr>)))))
            else Done (emitBytes (Opc OP_CLASS) (Raw CLASS_DEFAULT) s4))
           (\<lambda>s6.
              andThen
                (parseClassBody rec k
                   (consume TOKEN_LEFT_BRACE ''Expect '{' before class body.''
                      (emitByte (u8 (int nameConstant)) s6)))
                (\<lambda>s7.
                   let s8 = consume TOKEN_RIGHT_BRACE ''Expect '}' after class body.'' s7;
                       s9 = (if c_hasSuperclass (currentClass s8)
                             then emitByte (Opc OP_END_CLASS) (endScope s8) else s8)
                   in Done (defineVariable nameConstant False (endClassCompiler s9)))))"

definition funDeclaration :: "recur \<Rightarrow> nat \<Rightarrow> state \<Rightarrow> state outcome" where
  "funDeclaration rec k s =
     (case parseVariable ''Expect function name.'' False s of
        (global, s1) \<Rightarrow>
          andThen (function_fn rec k TYPE_FUNCTION s1)
            (\<lambda>s2. Done (defineVariable global False s2)))"

section \<open>Statements\<close>

primrec varDeclaration_loop :: "recur \<Rightarrow> nat \<Rightarrow> bool \<Rightarrow> state \<Rightarrow> state outcome" where
  "varDeclaration_loop rec 0 constant s = OutOfFuel"
| "varDeclaration_loop rec (Suc k) constant s =
     (let (global, s1) = parseVariable ''Expect variable name.'' constant s;
          (hasInit, s2) = match TOKEN_EQUAL s1
      in andThen
           (if hasInit \<or> constant then expression rec s2 else Done (emitByte (Opc OP_NIL) s2))
           (\<lambda>s3. case match TOKEN_COMMA (defineVariable global constant s3) of
                    (True, s4) \<Rightarrow> varDeclaration_loop rec k constant s4
                  | (False, s4) \<Rightarrow> Done s4))"

definition varDeclaration :: "recur \<Rightarrow> nat \<Rightarrow> bool \<Rightarrow> state \<Rightarrow> state outcome" where
  "varDeclaration rec k constant s =
     andThen (varDeclaration_loop rec k constant s)
       (\<lambda>s1. Done (consume TOKEN_SEMICOLON ''Expect ';' after variable declaration.'' s1))"

text \<open>
  \<^verbatim>\<open>expressionStatement\<close> first looks one token ahead: it advances, notes the kind
  \<open>t\<close> of the token after the current one, rewinds the scanner by the length of that
  token and restores \<open>current\<close> and \<open>previous\<close>.
\<close>

definition expressionStatement :: "recur \<Rightarrow> state \<Rightarrow> state outcome" where
  "expressionStatement rec s =
     (let previous0 = previous (parser s);
          s1 = advance s;
          t = ttype (current (parser s1));
          sc = (backTrack ^^ length (lexeme (current (parser s1)))) (scanner (parser s1));
          s2 = s1\<lparr>parser := (parser s1)\<lparr>scanner := sc, current := previous (parser s1),
                                          previous := previous0\<rparr>\<rparr>
      in andThen (expression rec s2)
           (\<lambda>s3. let s4 = consume TOKEN_SEMICOLON ''Expect ';' after expression.'' s3
                 in Done (if repl (vm s4) \<and> t \<noteq> TOKEN_EQUAL \<and> ctype (cc s4) = TYPE_TOP_LEVEL
                          then emitByte (Opc OP_POP_REPL) s4
                          else emitByte (Opc OP_POP) s4)))"

text \<open>
  \<^verbatim>\<open>getArgCount\<close>: the \<^verbatim>\<open>switch\<close> on the byte at \<open>ip\<close>.  An opcode that is in none of
  the lists takes the final \<^verbatim>\<open>return 0\<close>.  The closure case reads the next byte as a
  pool index and the pool entry as a function object.
\<close>

definition zeroArgOps :: "OpCode list" where
  "zeroArgOps = [OP_NIL, OP_TRUE, OP_FALSE, OP_POP, OP_EQUAL, OP_GREATER, OP_LESS, OP_ADD,
     OP_MULTIPLY, OP_NOT, OP_POW, OP_MOD, OP_NEGATE, OP_CLOSE_UPVALUE, OP_RETURN, OP_EMPTY,
     OP_END_CLASS, OP_IMPORT_VARIABLE, OP_IMPORT_END, OP_BREAK, OP_BITWISE_AND,
     OP_BITWISE_XOR, OP_BITWISE_OR, OP_POP_REPL]"

definition twoArgOps :: "OpCode list" where
  "twoArgOps = [OP_CONSTANT, OP_GET_LOCAL, OP_SET_LOCAL, OP_GET_GLOBAL, OP_GET_MODULE,
     OP_DEFINE_MODULE, OP_SET_MODULE, OP_GET_UPVALUE, OP_SET_UPVALUE, OP_GET_PROPERTY,
     OP_SET_CLASS_VAR, OP_GET_SUPER, OP_METHOD, OP_IMPORT, OP_DEFINE_OPTIONAL, OP_JUMP,
     OP_JUMP_IF_FALSE, OP_LOOP, OP_CLASS, OP_CALL]"

definition threeArgOps :: "OpCode list" where
  "threeArgOps = [OP_INVOKE, OP_SUPER]"

definition getArgCount :: "encoding \<Rightarrow> byte list \<Rightarrow> Value list \<Rightarrow> nat \<Rightarrow> nat outcome" where
  "getArgCount enc cd vs ip =
     (if list_ex (is_op enc (cd ! ip)) zeroArgOps then Done 0
      else if list_ex (is_op enc (cd ! ip)) twoArgOps then Done 2
      else if list_ex (is_op enc (cd ! ip)) threeArgOps then Done 3
      else if is_op enc (cd ! ip) OP_CLOSURE
      then (if \<not> ip + 1 < length cd then Stuck OutOfBounds
            else if \<not> byte_val enc (cd ! (ip + 1)) < length vs then Stuck OutOfBounds
            else (case vs ! byte_val enc (cd ! (ip + 1)) of
                    OBJ_FUNCTION nm ar aro va upc pc fc fk \<Rightarrow> Done (1 + upc * 2)
                  | _ \<Rightarrow> Stuck NotAFunction))
      else if is_op enc (cd ! ip) OP_IMPORT_FROM
      then (if \<not> ip + 1 < length cd then Stuck OutOfBounds
            else Done (1 + byte_val enc (cd ! (ip + 1))))
      else Done 0)"

text \<open>
  The walk of \<^verbatim>\<open>endLoop\<close> over the chunk from index \<open>i\<close>.  A break opcode whose two
  operand bytes would lie past the end of the chunk makes \<^verbatim>\<open>patchJump\<close> write there.
\<close>

function endLoop_walk :: "encoding \<Rightarrow> nat \<Rightarrow> state \<Rightarrow> state outcome" where
  "endLoop_walk enc i s =
     (if i < length (code (currentChunk s))
      then (if is_op enc (code (currentChunk s) ! i) OP_BREAK
            then (if i + 2 < length (code (currentChunk s))
                  then endLoop_walk enc (i + 3)
                         (patchJump (int i + 1)
                            (upd_chunk 0 (code_update (\<lambda>cd. cd[i := Opc OP_JUMP])) s))
                  else Stuck OutOfBounds)
            else (case getArgCount enc (code (currentChunk s)) (constants (currentChunk s)) i of
                    Done n \<Rightarrow> endLoop_walk enc (i + 1 + n) s
                  | Stuck e \<Rightarrow> Stuck e
                  | OutOfFuel \<Rightarrow> OutOfFuel))
      else Done s)"
  by pat_completeness auto

termination endLoop_walk
proof (relation "measure (\<lambda>(enc, i, s). length (code (currentChunk s)) - i)")
  show "wf (measure (\<lambda>(enc, i, s). length (code (currentChunk s)) - i))"
    by simp
next
  fix enc :: encoding and i :: nat and s :: state
  assume "i < length (code (currentChunk s))"
  moreover have "length (code (currentChunk
      (patchJump (int i + 1) (upd_chunk 0 (code_update (\<lambda>cd. cd[i := Opc OP_JUMP])) s))))
      = length (code (currentChunk s))"
    by (cases "compilers s")
       (simp_all add: patchJump_def currentChunk_def cc_def upd_chunk_def upd_compiler_def
          error_def count_def Let_def)
  ultimately show "((enc, i + 3,
       patchJump (int i + 1) (upd_chunk 0 (code_update (\<lambda>cd. cd[i := Opc OP_JUMP])) s)),
      enc, i, s) \<in> measure (\<lambda>(enc, i, s). length (code (currentChunk s)) - i)"
    by simp
next
  fix enc :: encoding and i :: nat and s :: state and x1 :: nat
  assume "i < length (code (currentChunk s))"
  then show "((enc, i + 1 + x1, s), enc, i, s)
      \<in> measure (\<lambda>(enc, i, s). length (code (currentChunk s)) - i)"
    by simp
qed

definition endLoop :: "encoding \<Rightarrow> state \<Rightarrow> state outcome" where
  "endLoop enc s =
     (case loop (cc s) of
        [] \<Rightarrow> Stuck NullLoop
      | l # ls \<Rightarrow>
          andThen
            (endLoop_walk enc (nat (l_body l))
               (if l_end l \<noteq> -1 then emitByte (Opc OP_POP) (patchJump (l_end l) s) else s))
            (\<lambda>s1. Done (upd_compiler 0 (\<lambda>c. c\<lparr>loop := tl (loop c)\<rparr>) s1)))"

definition pushLoop :: "state \<Rightarrow> state" where
  "pushLoop s =
     upd_compiler 0
       (\<lambda>c. c\<lparr>loop := \<lparr>l_start = count s, l_body = 0, l_end = -1, l_scopeDepth = scopeDepth c\<rparr>
                       # loop c\<rparr>) s"

definition upd_loop :: "(Loop \<Rightarrow> Loop) \<Rightarrow> state \<Rightarrow> state" where
  "upd_loop f s =
     upd_compiler 0 (\<lambda>c. c\<lparr>loop := (case loop c of [] \<Rightarrow> [] | l # ls \<Rightarrow> f l # ls)\<rparr>) s"

definition loopStart :: "state \<Rightarrow> int" where
  "loopStart s = l_start (hd (loop (cc s)))"

definition forStatement :: "encoding \<Rightarrow> recur \<Rightarrow> nat \<Rightarrow> state \<Rightarrow> state outcome" where
  "forStatement enc rec k s =
     (let s1 = consume TOKEN_LEFT_PAREN ''Expect '(' after 'for'.'' (beginScope s);
          (isVar, s2) = match TOKEN_VAR s1
      in andThen
           (if isVar then varDeclaration rec k False s2
            else (case match TOKEN_SEMICOLON s2 of
                    (True, s3) \<Rightarrow> Done s3
                  | (False, s3) \<Rightarrow> expressionStatement rec s3))
           (\<lambda>s4.
              andThen
                (case match TOKEN_SEMICOLON (pushLoop s4) of
                   (True, s5) \<Rightarrow> Done s5
                 | (False, s5) \<Rightarrow>
                     andThen (expression rec s5)
                       (\<lambda>s6. case emitJump OP_JUMP_IF_FALSE
                                     (consume TOKEN_SEMICOLON ''Expect ';' after loop condition.'' s6) of
                               (exitJump, s7) \<Rightarrow>
                                 Done (emitByte (Opc OP_POP) (upd_loop (\<lambda>l. l\<lparr>l_end := exitJump\<rparr>) s7))))
                (\<lambda>s8.
                   andThen
                     (case match TOKEN_RIGHT_PAREN s8 of
                        (True, s9) \<Rightarrow> Done s9
                      | (False, s9) \<Rightarrow>
                          (case emitJump OP_JUMP s9 of
                             (bodyJump, s10) \<Rightarrow>
                               andThen (expression rec s10)
                                 (\<lambda>s11.
                                    let s12 = emitLoop (loopStart s11)
                                                (consume TOKEN_RIGHT_PAREN ''Expect ')' after for clauses.''
                                                   (emitByte (Opc OP_POP) s11))
                                    in Done (patchJump bodyJump
                                               (upd_loop (\<lambda>l. l\<lparr>l_start := count s10\<rparr>) s12)))))
                     (\<lambda>s13.
                        andThen (rec Statement (upd_loop (\<lambda>l. l\<lparr>l_body := count s13\<rparr>) s13))
                          (\<lambda>s14. andThen (endLoop enc (emitLoop (loopStart s14) s14))
                                    (\<lambda>s15. Done (endScope s15)))))))"

text \<open>
  The loop shared by \<^verbatim>\<open>breakStatement\<close> and \<^verbatim>\<open>continueStatement\<close>: from index
  \<open>i - 1\<close> down, one pop or close per local that is deeper than the loop.
\<close>

primrec discardLocals :: "int \<Rightarrow> nat \<Rightarrow> state \<Rightarrow> state" where
  "discardLocals d 0 s = s"
| "discardLocals d (Suc i) s =
     (if l_depth (locals (cc s) ! i) > d
      then discardLocals d i
             (emitByte (Opc (if l_isUpvalue (locals (cc s) ! i) then OP_CLOSE_UPVALUE else OP_POP)) s)
      else s)"

definition breakStatement :: "state \<Rightarrow> state outcome" where
  "breakStatement s =
     (case loop (cc s) of
        [] \<Rightarrow> Done (error ''Cannot utilise 'break' outside of a loop.'' s)
      | l # ls \<Rightarrow>
          let s1 = consume TOKEN_SEMICOLON ''Expected semicolon after break'' s
          in Done (snd (emitJump OP_BREAK
                          (discardLocals (l_scopeDepth l) (length (locals (cc s1))) s1))))"

text \<open>
  \<^verbatim>\<open>continueStatement\<close> does not return after reporting that there is no loop: the
  loop over the locals then reads \<^verbatim>\<open>compiler->loop->scopeDepth\<close> through the null
  pointer (slot 0 always exists, so the condition is evaluated).
\<close>

definition continueStatement :: "state \<Rightarrow> state outcome" where
  "continueStatement s =
     (let s1 = consume TOKEN_SEMICOLON ''Expect ';' after 'continue'.''
                 (if loop (cc s) = [] then error ''Cannot utilise 'continue' outside of a loop.'' s
                  else s)
      in case loop (cc s1) of
           [] \<Rightarrow> Stuck NullLoop
         | l # ls \<Rightarrow>
             Done (emitLoop (l_start l)
                     (discardLocals (l_scopeDepth l) (length (locals (cc s1))) s1)))"

definition ifStatement :: "recur \<Rightarrow> state \<Rightarrow> state outcome" where
  "ifStatement rec s =
     andThen (expression rec (consume TOKEN_LEFT_PAREN ''Expect '(' after 'if'.'' s))
       (\<lambda>s1. case emitJump OP_JUMP_IF_FALSE
                     (consume TOKEN_RIGHT_PAREN ''Expect ')' after condition.'' s1) of
               (elseJump, s2) \<Rightarrow>
                 andThen (rec Statement (emitByte (Opc OP_POP) s2))
                   (\<lambda>s3. case emitJump OP_JUMP s3 of
                           (endJump, s4) \<Rightarrow>
                             andThen
                               (case match TOKEN_ELSE (emitByte (Opc OP_POP) (patchJump elseJump s4)) of
                                  (True, s5) \<Rightarrow> rec Statement s5
                                | (False, s5) \<Rightarrow> Done s5)
                               (\<lambda>s6. Done (patchJump endJump s6))))"

definition returnStatement :: "recur \<Rightarrow> state \<Rightarrow> state outcome" where
  "returnStatement rec s =
     (case match TOKEN_SEMICOLON
             (if ctype (cc s) = TYPE_TOP_LEVEL then error ''Cannot return from top-level code.'' s
              else s) of
        (True, s1) \<Rightarrow> Done (emitReturn s1)
      | (False, s1) \<Rightarrow>
          andThen
            (expression rec
               (if ctype (cc s1) = TYPE_INITIALIZER
                then error ''Cannot return a value from an initializer.'' s1 else s1))
            (\<lambda>s2. Done (emitByte (Opc OP_RETURN)
                          (consume TOKEN_SEMICOLON ''Expect ';' after return value.'' s2))))"

definition importStatement :: "state \<Rightarrow> state" where
  "importStatement s =
     consume TOKEN_SEMICOLON ''Expect ';' after import.''
       (emitByte (Opc OP_IMPORT_END)
          (case match TOKEN_STRING s of
             (True, s1) \<Rightarrow>
               (let (importConstant, s2) =
                      makeConstant (OBJ_STRING (butlast (tl (lexeme (previous (parser s1)))))) s1;
                    s3 = emitByte (Opc OP_POP) (emitBytes (Opc OP_IMPORT) (u8 (int importConstant)) s2);
                    (hasAlias, s4) = match TOKEN_AS s3
                in if hasAlias
                   then (let (importName, s5) = parseVariable ''Expect import alias.'' False s4
                         in defineVariable importName False (emitByte (Opc OP_IMPORT_VARIABLE) s5))
                   else s4)
           | (False, s1) \<Rightarrow> s1))"

text \<open>
  The name loop of \<^verbatim>\<open>fromImportStatement\<close>; \<open>variables\<close> and \<open>tokens\<close> are the two
  arrays of 255 entries, \<^verbatim>\<open>varCount\<close> is their common length.
\<close>

primrec fromImport_loop ::
    "nat \<Rightarrow> nat list \<Rightarrow> Token list \<Rightarrow> state \<Rightarrow> (nat list \<times> Token list \<times> state) outcome" where
  "fromImport_loop 0 variables tokens s = OutOfFuel"
| "fromImport_loop (Suc k) variables tokens s =
     (let s1 = consume TOKEN_IDENTIFIER ''Expect variable name.'' s
      in if length variables \<ge> 255 then Stuck OutOfBounds
         else
           let (v, s2) = identifierConstant (previous (parser s1)) s1;
               s3 = (if length variables + 1 > 255
                     then error ''Cannot have more than 255 variables.'' s2 else s2)
           in case match TOKEN_COMMA s3 of
                (True, s4) \<Rightarrow> fromImport_loop k (variables @ [v]) (tokens @ [previous (parser s1)]) s4
              | (False, s4) \<Rightarrow> Done (variables @ [v], tokens @ [previous (parser s1)], s4))"

definition fromImportStatement :: "nat \<Rightarrow> state \<Rightarrow> state outcome" where
  "fromImportStatement k s =
     andThen
       (case match TOKEN_STRING s of
          (True, s1) \<Rightarrow>
            (let (importConstant, s2) =
                   makeConstant (OBJ_STRING (butlast (tl (lexeme (previous (parser s1)))))) s1;
                 s3 = emitByte (Opc OP_POP)
                        (emitBytes (Opc OP_IMPORT) (u8 (int importConstant))
                           (consume TOKEN_IMPORT ''Expect 'import' after import path.'' s2))
             in andThen (fromImport_loop k [] [] s3)
                  (\<lambda>(variables, tokens, s4).
                     let s5 = fold (\<lambda>v. emitByte (u8 (int v))) variables
                                (emitBytes (Opc OP_IMPORT_FROM) (u8 (int (length variables))) s4)
                     in Done (if scopeDepth (cc s5) = 0
                              then fold (\<lambda>v. defineVariable v False) (rev variables) s5
                              else fold (\<lambda>t st. defineVariable 0 False (declareVariable t st))
                                     tokens s5)))
        | (False, s1) \<Rightarrow> Done s1)
       (\<lambda>s6. Done (consume TOKEN_SEMICOLON ''Expect ';' after import.''
                     (emitByte (Opc OP_IMPORT_END) s6)))"

definition whileStatement :: "encoding \<Rightarrow> recur \<Rightarrow> state \<Rightarrow> state outcome" where
  "whileStatement enc rec s0 =
     (let s = pushLoop s0
      in andThen
           (if check s TOKEN_LEFT_BRACE then Done (emitByte (Opc OP_TRUE) s)
            else andThen (expression rec (consume TOKEN_LEFT_PAREN ''Expect '(' after 'while'.'' s))
                   (\<lambda>s1. Done (consume TOKEN_RIGHT_PAREN ''Expect ')' after condition.'' s1)))
           (\<lambda>s2. case emitJump OP_JUMP_IF_FALSE s2 of
                   (exitJump, s3) \<Rightarrow>
                     let s4 = emitByte (Opc OP_POP) (upd_loop (\<lambda>l. l\<lparr>l_end := exitJump\<rparr>) s3)
                     in andThen (rec Statement (upd_loop (\<lambda>l. l\<lparr>l_body := count s4\<rparr>) s4))
                          (\<lambda>s5. endLoop enc (emitLoop (loopStart s5) s5))))"

text \<open>
  \<^verbatim>\<open>synchronize\<close>: every case of the \<^verbatim>\<open>switch\<close> falls through to the empty default,
  so the loop only stops behind a semicolon or at the end of the file.
\<close>

primrec synchronize_loop :: "nat \<Rightarrow> state \<Rightarrow> state outcome" where
  "synchronize_loop 0 s = OutOfFuel"
| "synchronize_loop (Suc k) s =
     (if ttype (current (parser s)) \<noteq> TOKEN_EOF
      then (if ttype (previous (parser s)) = TOKEN_SEMICOLON then Done s
            else synchronize_loop k (advance s))
      else Done s)"

definition synchronize :: "nat \<Rightarrow> state \<Rightarrow> state outcome" where
  "synchronize k s = synchronize_loop k (s\<lparr>parser := (parser s)\<lparr>panicMode := False\<rparr>\<rparr>)"

text \<open>
  \<^verbatim>\<open>statement\<close>.  In the branch of the left brace the inner test asks the current
  token to be a right brace and a semicolon at once.
\<close>

definition statement :: "encoding \<Rightarrow> recur \<Rightarrow> nat \<Rightarrow> state \<Rightarrow> state outcome" where
  "statement enc rec k s =
     (if check s TOKEN_FOR then forStatement enc rec k (advance s)
      else if check s TOKEN_IF then ifStatement rec (advance s)
      else if check s TOKEN_RETURN then returnStatement rec (advance s)
      else if check s TOKEN_IMPORT then Done (importStatement (advance s))
      else if check s TOKEN_FROM then fromImportStatement k (advance s)
      else if check s TOKEN_BREAK then breakStatement (advance s)
      else if check s TOKEN_WHILE then whileStatement enc rec (advance s)
      else if check s TOKEN_LEFT_BRACE
      then (let s1 = advance s;
                previous0 = previous (parser s1);
                curtok = current (parser s1);
                s2 = advance s1
            in if check s2 TOKEN_RIGHT_BRACE \<and> check s2 TOKEN_SEMICOLON
               then expressionStatement rec
                      (s2\<lparr>parser := (parser s2)\<lparr>scanner := backTrack (backTrack (scanner (parser s2))),
                                                 current := previous0\<rparr>\<rparr>)
               else
                 let sc = (backTrack ^^ length (lexeme (current (parser s2)))) (scanner (parser s2));
                     s3 = s2\<lparr>parser := (parser s2)\<lparr>scanner := sc, previous := previous0,
                                                    current := curtok\<rparr>\<rparr>
                 in andThen (block rec k (beginScope s3)) (\<lambda>s4. Done (endScope s4)))
      else if check s TOKEN_CONTINUE then continueStatement (advance s)
      else expressionStatement rec s)"

definition declaration_fn :: "encoding \<Rightarrow> recur \<Rightarrow> nat \<Rightarrow> state \<Rightarrow> state outcome" where
  "declaration_fn enc rec k s =
     andThen
       (if check s TOKEN_CLASS then classDeclaration rec k (advance s)
        else if check s TOKEN_DEF then funDeclaration rec k (advance s)
        else if check s TOKEN_VAR then varDeclaration rec k False (advance s)
        else statement enc rec k s)
       (\<lambda>s1. if panicMode (parser s1) then synchronize k s1 else Done s1)"

section \<open>The driver\<close>

definition step :: "encoding \<Rightarrow> nat \<Rightarrow> recur \<Rightarrow> call \<Rightarrow> state \<Rightarrow> state outcome" where
  "step enc k rec c s =
     (case c of
        ParsePrecedence precedence \<Rightarrow> parsePrecedence enc rec k precedence s
      | Statement \<Rightarrow> statement enc rec k s
      | Declaration \<Rightarrow> declaration_fn enc rec k s
      | NamedVariable name canAssign \<Rightarrow> namedVariable rec name canAssign s)"

text \<open>
  \<open>exec enc n\<close> runs a call with at most \<open>n\<close> nested calls back into the four entry
  points and at most \<open>n - 1\<close> iterations of any loop.
\<close>

primrec exec :: "encoding \<Rightarrow> nat \<Rightarrow> call \<Rightarrow> state \<Rightarrow> state outcome" where
  "exec enc 0 = (\<lambda>c s. OutOfFuel)"
| "exec enc (Suc n) = step enc n (exec enc n)"

primrec compile_loop :: "encoding \<Rightarrow> nat \<Rightarrow> nat \<Rightarrow> state \<Rightarrow> state outcome" where
  "compile_loop enc n 0 s = OutOfFuel"
| "compile_loop enc n (Suc k) s =
     andThen (exec enc n Declaration s)
       (\<lambda>s1. case match TOKEN_EOF s1 of
               (True, s2) \<Rightarrow> Done s2
             | (False, s2) \<Rightarrow> compile_loop enc n k s2)"

text \<open>
  The parser of \<^verbatim>\<open>compile\<close> starts with \<open>current\<close> and \<open>previous\<close> not set; the first
  \<^verbatim>\<open>advance\<close> sets \<open>current\<close>.
\<close>

definition initState :: "DictuVM \<Rightarrow> (nat \<times> TokenType \<times> string) list \<Rightarrow> state" where
  "initState vm0 source =
     \<lparr>parser = \<lparr>current = eofToken, previous = eofToken, scanner = initScanner source,
                hadError = False, panicMode = False, errors = []\<rparr>,
      vm = vm0, compilers = [], classes = []\<rparr>"

text \<open>
  \<^verbatim>\<open>compile\<close> returns the function, or null when an error was reported; the model also
  returns the final state (for the diagnostics).
\<close>

definition compile ::
    "encoding \<Rightarrow> nat \<Rightarrow> DictuVM \<Rightarrow> (nat \<times> TokenType \<times> string) list
       \<Rightarrow> (ObjFunction option \<times> state) outcome" where
  "compile enc n vm0 source =
     andThen
       (case match TOKEN_EOF (advance (initCompiler TYPE_TOP_LEVEL (initState vm0 source))) of
          (True, s1) \<Rightarrow> Done s1
        | (False, s1) \<Rightarrow> compile_loop enc n n s1)
       (\<lambda>s2. case endCompiler s2 of
               (f, s3) \<Rightarrow>
                 let s4 = (if \<not> repl (vm s3) then s3\<lparr>vm := (vm s3)\<lparr>vm_constants := []\<rparr>\<rparr> else s3)
                 in Done (if hadError (parser s4) then None else Some f, s4))"

section \<open>Sources, numbering and projections used in the statements\<close>

text \<open>A lexeme written directly behind the previous one, and one written after a blank.\<close>

definition tok :: "TokenType \<Rightarrow> string \<Rightarrow> nat \<times> TokenType \<times> string" where
  "tok ty lx = (0, ty, lx)"

definition sptok :: "TokenType \<Rightarrow> string \<Rightarrow> nat \<times> TokenType \<times> string" where
  "sptok ty lx = (1, ty, lx)"

text \<open>The source \<^verbatim>\<open>1+2*3;\<close>.\<close>

definition src_add_mul :: "(nat \<times> TokenType \<times> string) list" where
  "src_add_mul = [tok TOKEN_NUMBER ''1'', tok TOKEN_PLUS ''+'', tok TOKEN_NUMBER ''2'',
     tok TOKEN_STAR ''*'', tok TOKEN_NUMBER ''3'', tok TOKEN_SEMICOLON '';'']"

text \<open>The source \<^verbatim>\<open>1+2+3;\<close>.\<close>

definition src_add_add :: "(nat \<times> TokenType \<times> string) list" where
  "src_add_add = [tok TOKEN_NUMBER ''1'', tok TOKEN_PLUS ''+'', tok TOKEN_NUMBER ''2'',
     tok TOKEN_PLUS ''+'', tok TOKEN_NUMBER ''3'', tok TOKEN_SEMICOLON '';'']"

text \<open>The source \<^verbatim>\<open>-(-5);\<close>.\<close>

definition src_neg_neg :: "(nat \<times> TokenType \<times> string) list" where
  "src_neg_neg = [tok TOKEN_MINUS ''-'', tok TOKEN_LEFT_PAREN ''('', tok TOKEN_MINUS ''-'',
     tok TOKEN_NUMBER ''5'', tok TOKEN_RIGHT_PAREN '')'', tok TOKEN_SEMICOLON '';'']"

text \<open>The source \<^verbatim>\<open>not true;\<close>.\<close>

definition src_not_true :: "(nat \<times> TokenType \<times> string) list" where
  "src_not_true = [tok TOKEN_NOT ''not'', sptok TOKEN_TRUE ''true'', tok TOKEN_SEMICOLON '';'']"

text \<open>The sources \<^verbatim>\<open>continue;\<close> and \<^verbatim>\<open>break;\<close>.\<close>

definition src_continue :: "(nat \<times> TokenType \<times> string) list" where
  "src_continue = [tok TOKEN_CONTINUE ''continue'', tok TOKEN_SEMICOLON '';'']"

definition src_break :: "(nat \<times> TokenType \<times> string) list" where
  "src_break = [tok TOKEN_BREAK ''break'', tok TOKEN_SEMICOLON '';'']"

text \<open>The source \<^verbatim>\<open>{};\<close>.\<close>

definition src_braces :: "(nat \<times> TokenType \<times> string) list" where
  "src_braces = [tok TOKEN_LEFT_BRACE ''{'', tok TOKEN_RIGHT_BRACE ''}'', tok TOKEN_SEMICOLON '';'']"

text \<open>The source \<^verbatim>\<open>import;\<close>.\<close>

definition src_import :: "(nat \<times> TokenType \<times> string) list" where
  "src_import = [tok TOKEN_IMPORT ''import'', tok TOKEN_SEMICOLON '';'']"

text \<open>The source \<^verbatim>\<open>while (true) { x = 1; break; }\<close>.\<close>

definition src_while_break :: "(nat \<times> TokenType \<times> string) list" where
  "src_while_break = [tok TOKEN_WHILE ''while'', sptok TOKEN_LEFT_PAREN ''('',
     tok TOKEN_TRUE ''true'', tok TOKEN_RIGHT_PAREN '')'', sptok TOKEN_LEFT_BRACE ''{'',
     sptok TOKEN_IDENTIFIER ''x'', sptok TOKEN_EQUAL ''='', sptok TOKEN_NUMBER ''1'',
     tok TOKEN_SEMICOLON '';'', sptok TOKEN_BREAK ''break'', tok TOKEN_SEMICOLON '';'',
     sptok TOKEN_RIGHT_BRACE ''}'']"

text \<open>The source \<^verbatim>\<open>x = 1;\<close>.\<close>

definition src_assign :: "(nat \<times> TokenType \<times> string) list" where
  "src_assign = [tok TOKEN_IDENTIFIER ''x'', sptok TOKEN_EQUAL ''='', sptok TOKEN_NUMBER ''1'',
     tok TOKEN_SEMICOLON '';'']"

text \<open>The sources \<^verbatim>\<open>g = 1;\<close>, \<^verbatim>\<open>g += 1;\<close> and \<^verbatim>\<open>g;\<close>.\<close>

definition src_g_assign :: "(nat \<times> TokenType \<times> string) list" where
  "src_g_assign = [tok TOKEN_IDENTIFIER ''g'', sptok TOKEN_EQUAL ''='', sptok TOKEN_NUMBER ''1'',
     tok TOKEN_SEMICOLON '';'']"

definition src_g_compound :: "(nat \<times> TokenType \<times> string) list" where
  "src_g_compound = [tok TOKEN_IDENTIFIER ''g'', sptok TOKEN_PLUS_EQUALS ''+='',
     sptok TOKEN_NUMBER ''1'', tok TOKEN_SEMICOLON '';'']"

definition src_g_read :: "(nat \<times> TokenType \<times> string) list" where
  "src_g_read = [tok TOKEN_IDENTIFIER ''g'', tok TOKEN_SEMICOLON '';'']"

text \<open>The sources \<^verbatim>\<open>{ def f() { f; } }\<close> and \<^verbatim>\<open>{ var a = a; }\<close>.\<close>

definition src_self_ref :: "(nat \<times> TokenType \<times> string) list" where
  "src_self_ref = [tok TOKEN_LEFT_BRACE ''{'', sptok TOKEN_DEF ''def'', sptok TOKEN_IDENTIFIER ''f'',
     tok TOKEN_LEFT_PAREN ''('', tok TOKEN_RIGHT_PAREN '')'', sptok TOKEN_LEFT_BRACE ''{'',
     sptok TOKEN_IDENTIFIER ''f'', tok TOKEN_SEMICOLON '';'', sptok TOKEN_RIGHT_BRACE ''}'',
     sptok TOKEN_RIGHT_BRACE ''}'']"

definition src_own_init :: "(nat \<times> TokenType \<times> string) list" where
  "src_own_init = [tok TOKEN_LEFT_BRACE ''{'', sptok TOKEN_VAR ''var'', sptok TOKEN_IDENTIFIER ''a'',
     sptok TOKEN_EQUAL ''='', sptok TOKEN_IDENTIFIER ''a'', tok TOKEN_SEMICOLON '';'',
     sptok TOKEN_RIGHT_BRACE ''}'']"

text \<open>
  Modelled from the spec: a numbering of the opcodes, for the statements that need a
  closed term.  The enumeration that fixes the numbers is declared in a header that is
  not part of the sources, and the spec gives no numbers.  This numbering counts from 0
  in the order of the datatype \<open>OpCode\<close>, which begins with \<^verbatim>\<open>OP_CONSTANT\<close>.
\<close>

definition allOpcodes :: "OpCode list" where
  "allOpcodes =
    [OP_CONSTANT, OP_NIL, OP_TRUE, OP_FALSE, OP_POP, OP_POP_REPL,
     OP_GET_LOCAL, OP_SET_LOCAL, OP_GET_GLOBAL, OP_GET_MODULE, OP_DEFINE_MODULE,
     OP_SET_MODULE, OP_GET_UPVALUE, OP_SET_UPVALUE, OP_GET_PROPERTY,
     OP_GET_PROPERTY_NO_POP, OP_SET_PROPERTY, OP_SET_CLASS_VAR, OP_GET_SUPER,
     OP_EQUAL, OP_GREATER, OP_LESS, OP_ADD, OP_SUBTRACT, OP_MULTIPLY, OP_DIVIDE,
     OP_POW, OP_MOD, OP_NOT, OP_NEGATE, OP_BITWISE_AND, OP_BITWISE_XOR,
     OP_BITWISE_OR, OP_JUMP, OP_JUMP_IF_FALSE, OP_LOOP, OP_BREAK, OP_CALL,
     OP_INVOKE, OP_INVOKE_INTERNAL, OP_SUPER, OP_CLOSURE, OP_CLOSE_UPVALUE,
     OP_RETURN, OP_EMPTY, OP_CLASS, OP_SUBCLASS, OP_END_CLASS, OP_METHOD,
     OP_DEFINE_OPTIONAL, OP_IMPORT, OP_IMPORT_VARIABLE, OP_IMPORT_END, OP_IMPORT_FROM]"

fun indexOf :: "'a \<Rightarrow> 'a list \<Rightarrow> nat" where
  "indexOf x [] = 0"
| "indexOf x (y # ys) = (if x = y then 0 else Suc (indexOf x ys))"

definition opcodeNumber :: encoding where
  "opcodeNumber opc = indexOf opc allOpcodes"

text \<open>A machine outside REPL mode, in REPL mode, and one that knows the global \<open>g\<close>.\<close>

definition scriptVM :: DictuVM where
  "scriptVM = \<lparr>repl = False, globals = [], vm_constants = []\<rparr>"

definition replVM :: DictuVM where
  "replVM = \<lparr>repl = True, globals = [], vm_constants = []\<rparr>"

definition globalVM :: DictuVM where
  "globalVM = \<lparr>repl = False, globals = [''g''], vm_constants = []\<rparr>"

text \<open>
  What a run of \<open>compile\<close> delivers: the bytecode and the pool of the function it
  returns; whether it returned null, with the diagnostics it printed; the point where
  the C program has no defined behaviour.
\<close>

definition compiled ::
    "(ObjFunction option \<times> state) outcome \<Rightarrow> (byte list \<times> Value list) option" where
  "compiled r =
     (case r of
        Done (Some f, s) \<Rightarrow> Some (code (chunk f), constants (chunk f))
      | _ \<Rightarrow> None)"

definition reported :: "(ObjFunction option \<times> state) outcome \<Rightarrow> (bool \<times> string list) option" where
  "reported r =
     (case r of
        Done (fo, s) \<Rightarrow> Some (case fo of None \<Rightarrow> True | Some f \<Rightarrow> False, errors (parser s))
      | _ \<Rightarrow> None)"

definition stuckAt :: "'a outcome \<Rightarrow> fault option" where
  "stuckAt r = (case r of Stuck e \<Rightarrow> Some e | _ \<Rightarrow> None)"

definition finalConstants :: "(ObjFunction option \<times> state) outcome \<Rightarrow> string list option" where
  "finalConstants r = (case r of Done (fo, s) \<Rightarrow> Some (vm_constants (vm s)) | _ \<Rightarrow> None)"

text \<open>
  The state in which the body of \<^verbatim>\<open>f\<close> in \<^verbatim>\<open>{ def f() { f; } }\<close> is compiled: the
  enclosing function is inside a block and holds the local \<open>f\<close>, declared and not yet
  defined; the compiler of \<open>f\<close> is on top of it.
\<close>

definition selfRefState :: state where
  "selfRefState =
     initCompiler TYPE_FUNCTION
       (declareVariable (syntheticToken ''f'')
          (beginScope (initCompiler TYPE_TOP_LEVEL (initState scriptVM []))))"

text \<open>
  A chain of two compilers: the inner function already holds 256 upvalues (none of them
  a local of its parent), the enclosing function has the local \<open>x\<close> in slot 1.
\<close>

definition plainCompiler :: Compiler where
  "plainCompiler = cc (initCompiler TYPE_FUNCTION (initState scriptVM []))"

definition fullChain :: "Compiler list" where
  "fullChain =
     [plainCompiler\<lparr>upvalues := (\<lambda>i. \<lparr>u_index = i, u_isLocal = False, u_constant = False\<rparr>),
                    func := (func plainCompiler)\<lparr>upvalueCount := 256\<rparr>\<rparr>,
      plainCompiler\<lparr>locals := locals plainCompiler
                      @ [\<lparr>l_name = syntheticToken ''x'', l_depth = 1, l_isUpvalue = False,
                          l_constant = False\<rparr>],
                    scopeDepth := 1\<rparr>]"

definition freshParser :: Parser where
  "freshParser = parser (initState scriptVM [])"

section \<open>The empty module\<close>

text \<open>
  Claim C9.  Compiling an empty module (a source without tokens) succeeds and yields a
  function whose bytecode is exactly \<^verbatim>\<open>OP_NIL, OP_RETURN\<close>, with an empty pool.  This
  holds for every numbering of the opcodes, every machine and every bound.
\<close>

theorem C9_empty_module:
  "compiled (compile enc n vm0 []) = Some ([Opc OP_NIL, Opc OP_RETURN], [])"
proof (cases vm0)
  case (fields r g k)
  show ?thesis
    unfolding fields by (cases r; simp only: ; code_simp)
qed

section \<open>Constant folding\<close>

text \<open>
  Claim C2 (as stated, refuted).  The claim says that \<^verbatim>\<open>-(-5);\<close> compiles to a single
  \<^verbatim>\<open>OP_CONSTANT\<close> holding 5 with no \<^verbatim>\<open>OP_NEGATE\<close> left.  The compiler folds the inner
  negation only: when the outer \<^verbatim>\<open>unary\<close> asks \<^verbatim>\<open>foldUnary\<close>, the previous token is
  the closing parenthesis, not a number.  The result is the constant -5 followed by
  \<^verbatim>\<open>OP_NEGATE\<close>.
\<close>

theorem C2_counterexample:
  "compiled (compile opcodeNumber 10 scriptVM src_neg_neg)
     = Some ([Opc OP_CONSTANT, Raw 0, Opc OP_NEGATE, Opc OP_POP, Opc OP_NIL, Opc OP_RETURN],
             [NUMBER_VAL (- 5)])"
  by code_simp

text \<open>
  Claim C2 (amended).  Each of \<^verbatim>\<open>1+2*3;\<close>, \<^verbatim>\<open>1+2+3;\<close> and \<^verbatim>\<open>not true;\<close> compiles to
  exactly one constant load (\<^verbatim>\<open>OP_CONSTANT\<close> holding 7 and 6, and \<^verbatim>\<open>OP_FALSE\<close>) followed
  by the statement epilogue and the return, with no arithmetic or logic opcode left;
  \<^verbatim>\<open>-(-5);\<close> compiles to \<^verbatim>\<open>OP_CONSTANT\<close> holding -5 followed by \<^verbatim>\<open>OP_NEGATE\<close>.  This
  holds for every numbering of the opcodes, every machine and every bound of at least 6.
\<close>

theorem C2_constant_folding:
  "compiled (compile enc (Suc (Suc (Suc (Suc (Suc (Suc n)))))) vm0 src_add_mul)
     = Some ([Opc OP_CONSTANT, Raw 0, Opc (if repl vm0 then OP_POP_REPL else OP_POP),
              Opc OP_NIL, Opc OP_RETURN], [NUMBER_VAL 7])
   \<and> compiled (compile enc (Suc (Suc (Suc (Suc (Suc (Suc n)))))) vm0 src_add_add)
     = Some ([Opc OP_CONSTANT, Raw 0, Opc (if repl vm0 then OP_POP_REPL else OP_POP),
              Opc OP_NIL, Opc OP_RETURN], [NUMBER_VAL 6])
   \<and> compiled (compile enc (Suc (Suc (Suc (Suc (Suc (Suc n)))))) vm0 src_not_true)
     = Some ([Opc OP_FALSE, Opc (if repl vm0 then OP_POP_REPL else OP_POP),
              Opc OP_NIL, Opc OP_RETURN], [])
   \<and> compiled (compile enc (Suc (Suc (Suc (Suc (Suc (Suc n)))))) vm0 src_neg_neg)
     = Some ([Opc OP_CONSTANT, Raw 0, Opc OP_NEGATE,
              Opc (if repl vm0 then OP_POP_REPL else OP_POP), Opc OP_NIL, Opc OP_RETURN],
             [NUMBER_VAL (- 5)])"
proof (cases vm0)
  case (fields r g k)
  show ?thesis
    unfolding fields by (cases r; simp only: ; code_simp)
qed

section \<open>Errors outside a loop\<close>

text \<open>
  Claim C3 (the code departs from it).  The claim says that every compile error is
  recoverable and that \<^verbatim>\<open>continue;\<close> outside a loop reports its error and goes on
  without touching the loop record.  \<^verbatim>\<open>continueStatement\<close> reports the error but, unlike
  \<^verbatim>\<open>breakStatement\<close>, does not return: it goes on to read \<^verbatim>\<open>compiler->loop->scopeDepth\<close>
  through the null pointer.  Compiling \<^verbatim>\<open>continue;\<close> ends there, for every numbering,
  machine and bound of at least 2.
\<close>

theorem C3_continue_outside_loop:
  "stuckAt (compile enc (Suc (Suc n)) vm0 src_continue) = Some NullLoop"
proof (cases vm0)
  case (fields r g k)
  show ?thesis
    unfolding fields by (cases r; simp only: ; code_simp)
qed

section \<open>The empty braces\<close>

text \<open>
  Claim C8 (the code departs from it).  The claim says that \<^verbatim>\<open>{};\<close> is compiled as an
  expression statement without a compile error.  The branch of \<^verbatim>\<open>statement\<close> meant for
  it asks the current token to be a right brace and a semicolon at once and is never
  taken; the braces are compiled as an empty block and the semicolon that follows is
  reported with \<open>Expect expression.\<close>, so that \<^verbatim>\<open>compile\<close> returns null.
\<close>

theorem C8_empty_braces:
  "reported (compile enc (Suc (Suc (Suc n))) vm0 src_braces)
     = Some (True, [''Expect expression.''])"
proof (cases vm0)
  case (fields r g k)
  show ?thesis
    unfolding fields by (cases r; simp only: ; code_simp)
qed

section \<open>Break patching\<close>

text \<open>
  Claim C1 (the code departs from it).  The claim says that no function of a successful
  compilation contains \<^verbatim>\<open>OP_BREAK\<close>, because \<^verbatim>\<open>endLoop\<close> steps over each instruction by
  one opcode plus its operand count.  \<^verbatim>\<open>getArgCount\<close> answers 2 for the opcodes that
  the emitter writes with a single operand byte (\<^verbatim>\<open>OP_CONSTANT\<close>, \<^verbatim>\<open>OP_SET_MODULE\<close>,
  ...), so the walk leaves the instruction boundaries.  In
  \<^verbatim>\<open>while (true) { x = 1; break; }\<close> it steps from \<^verbatim>\<open>OP_CONSTANT\<close> onto the operand 0 of
  \<^verbatim>\<open>OP_SET_MODULE\<close>; with \<^verbatim>\<open>OP_CONSTANT\<close> numbered 0 that byte is taken for a constant
  load with two operand bytes, and the step over it passes the \<^verbatim>\<open>OP_BREAK\<close>.  The
  compilation succeeds and the break opcode with its placeholder bytes is still there.
\<close>

theorem C1_break_survives:
  "compiled (compile opcodeNumber 10 scriptVM src_while_break)
     = Some ([Opc OP_TRUE, Opc OP_JUMP_IF_FALSE, Raw 0, Raw 12, Opc OP_POP,
              Opc OP_CONSTANT, Raw 1, Opc OP_SET_MODULE, Raw 0, Opc OP_POP,
              Opc OP_BREAK, Raw 255, Raw 255, Opc OP_LOOP, Raw 0, Raw 16, Opc OP_POP,
              Opc OP_NIL, Opc OP_RETURN],
             [OBJ_STRING ''x'', NUMBER_VAL 1])"
  by code_simp

section \<open>Import without a path\<close>

text \<open>
  Claim C10.  When the token after \<^verbatim>\<open>import\<close> is not a string, \<^verbatim>\<open>importStatement\<close>
  reports nothing of its own: it emits \<^verbatim>\<open>OP_IMPORT_END\<close> and asks for the semicolon, and
  that is all it does.  In particular \<^verbatim>\<open>import;\<close> compiles successfully to
  \<^verbatim>\<open>OP_IMPORT_END\<close> followed by the return, for every numbering, machine and bound of
  at least 2.
\<close>

theorem C10_import_without_path:
  "(ttype (current (parser s)) \<noteq> TOKEN_STRING \<longrightarrow>
      importStatement s
        = consume TOKEN_SEMICOLON ''Expect ';' after import.'' (emitByte (Opc OP_IMPORT_END) s))
   \<and> compiled (compile enc (Suc (Suc n)) vm0 src_import)
        = Some ([Opc OP_IMPORT_END, Opc OP_NIL, Opc OP_RETURN], [])"
proof
  show "ttype (current (parser s)) \<noteq> TOKEN_STRING \<longrightarrow>
      importStatement s
        = consume TOKEN_SEMICOLON ''Expect ';' after import.'' (emitByte (Opc OP_IMPORT_END) s)"
    by (simp add: importStatement_def match_def check_def)
next
  show "compiled (compile enc (Suc (Suc n)) vm0 src_import)
        = Some ([Opc OP_IMPORT_END, Opc OP_NIL, Opc OP_RETURN], [])"
  proof (cases vm0)
    case (fields r g k)
    show ?thesis
      unfolding fields by (cases r; simp only: ; code_simp)
  qed
qed

text \<open>
  The hypothesis holds in the state that \<^verbatim>\<open>statement\<close> hands to \<^verbatim>\<open>importStatement\<close>
  for the source \<^verbatim>\<open>import;\<close>: the current token is the semicolon, and the statement
  leaves no diagnostic.
\<close>

theorem C10_import_without_path_witness:
  "ttype (current (parser
      (advance (advance (initCompiler TYPE_TOP_LEVEL (initState scriptVM src_import))))))
     \<noteq> TOKEN_STRING
   \<and> errors (parser (importStatement
      (advance (advance (initCompiler TYPE_TOP_LEVEL (initState scriptVM src_import)))))) = []
   \<and> compiled (compile opcodeNumber 2 scriptVM src_import)
        = Some ([Opc OP_IMPORT_END, Opc OP_NIL, Opc OP_RETURN], [])"
proof -
  define s0 where
    "s0 = advance (advance (initCompiler TYPE_TOP_LEVEL (initState scriptVM src_import)))"
  have h: "ttype (current (parser s0)) \<noteq> TOKEN_STRING"
    unfolding s0_def by code_simp
  have e: "errors (parser
      (consume TOKEN_SEMICOLON ''Expect ';' after import.'' (emitByte (Opc OP_IMPORT_END) s0))) = []"
    unfolding s0_def by code_simp
  from C10_import_without_path [of s0 opcodeNumber 0 scriptVM] h e
  show ?thesis
    unfolding s0_def by (simp add: numeral_2_eq_2)
qed

end
